theory Spec2Isabelle
  imports
    Main
    "HOL-Library.Multiset"
    "HOL-Library.Char_ord"
    "HOL-Library.List_Lexorder"
    "HOL-Library.Product_Lexorder"
begin

section \<open>Python values, outcomes and the engine state\<close>

text \<open>
  The configuration values of \<^verbatim>\<open>Things3\<close> are Python strings or booleans: the tag names and
  the database path are strings, the anonymize flag is \<^verbatim>\<open>False\<close> by default and becomes a
  string when it is read from the environment or from the configuration file.
  \<^verbatim>\<open>truthy\<close> is Python's truth test (\<^verbatim>\<open>cfg if cfg else ...\<close>, \<^verbatim>\<open>if self.anonymize:\<close>).
\<close>

datatype pyval = Str string | Bool bool

fun truthy :: "pyval \<Rightarrow> bool" where
  "truthy (Str s) = (s \<noteq> [])"
| "truthy (Bool b) = b"

text \<open>
  A call of a Python function returns, raises an exception, or leaves the process through
  \<^verbatim>\<open>sys.exit\<close>.
\<close>

datatype exn = KeyError string | AttributeError string | TypeError | ProgrammingError string

datatype 'a outcome = Return 'a | Raise exn | SysExit int

text \<open>
  \<^verbatim>\<open>Things3.filter\<close> is the SQL text put in front of every \<^verbatim>\<open>get_rows\<close> condition. Only
  \<^verbatim>\<open>api_filter\<close> and \<^verbatim>\<open>api_filter_reset\<close> assign it, with one of three texts; the state keeps
  which of the three it is and \<^verbatim>\<open>filter_sql\<close> gives the text, with the id pasted as it is.
\<close>

datatype scope_filter = NoFilter | AreaFilter string | ProjectFilter string

definition quote :: char where
  "quote = CHR 0x27"

definition newline :: char where
  "newline = CHR 0x0A"

fun filter_sql :: "scope_filter \<Rightarrow> string" where
  "filter_sql NoFilter = []"
| "filter_sql (AreaFilter uuid) = ''TASK.area = '' @ [quote] @ uuid @ [quote] @ '' AND''"
| "filter_sql (ProjectFilter uuid) =
     [newline] @ ''                (TASK.project = '' @ [quote] @ uuid @ [quote] @
     '' OR HEADING.project = '' @ [quote] @ uuid @ [quote] @ '') AND'' @
     [newline] @ ''                ''"

text \<open>
  The attributes of a \<^verbatim>\<open>Things3\<close> object that its methods read or assign.
  \<^verbatim>\<open>IS_TASK\<close> holds the SQL text \<^verbatim>\<open>type = 0\<close> (\<^verbatim>\<open>MODE_TASK\<close>) or \<^verbatim>\<open>type = 1\<close>
  (\<^verbatim>\<open>MODE_PROJECT\<close>); the state keeps the number the text compares \<^verbatim>\<open>type\<close> with.
\<close>

record things3 =
  debug :: bool
  database :: pyval
  filter' :: scope_filter
  tag_waiting :: pyval
  tag_mit :: pyval
  tag_cleanup :: pyval
  anonymize :: pyval
  IS_TASK :: int

definition MODE_TASK :: int where
  "MODE_TASK = 0"

definition MODE_PROJECT :: int where
  "MODE_PROJECT = 1"

definition FILE_DB :: string where
  "FILE_DB = ''/Library/Containers/com.culturedcode.ThingsMac/Data/Library/'' @
             ''Application Support/Cultured Code/Things/Things.sqlite3''"

text \<open>The class attributes, for the login name \<^verbatim>\<open>getpass.getuser()\<close> returned.\<close>

definition class_attributes :: "string \<Rightarrow> things3" where
  "class_attributes user =
     \<lparr> debug = False,
       database = Str (''/Users/'' @ user @ ''/'' @ FILE_DB),
       filter' = NoFilter,
       tag_waiting = Str ''Waiting'',
       tag_mit = Str ''MIT'',
       tag_cleanup = Str ''Cleanup'',
       anonymize = Bool False,
       IS_TASK = MODE_TASK \<rparr>"

section \<open>Configuration\<close>

text \<open>
  \<^verbatim>\<open>os.environ\<close> maps variable names to strings; the parsed \<^verbatim>\<open>~/.kanbanviewrc\<close> maps a section
  name to the entries of the section.
\<close>

type_synonym environ = "string \<rightharpoonup> string"

type_synonym config = "string \<rightharpoonup> (string \<rightharpoonup> string)"

text \<open>
  \<^verbatim>\<open>get_from_config(config, variable, preference)\<close>: the argument when it is not \<^verbatim>\<open>None\<close>, else
  the environment variable when \<^verbatim>\<open>environ.get\<close> gives a non-empty string, else the entry of
  section \<^verbatim>\<open>DATABASE\<close>, else \<^verbatim>\<open>None\<close>.
\<close>

definition get_from_config ::
  "config \<Rightarrow> environ \<Rightarrow> pyval option \<Rightarrow> string \<Rightarrow> pyval option" where
  "get_from_config config environ variable preference =
     (if variable \<noteq> None then variable
      else if (case environ preference of None \<Rightarrow> False | Some e \<Rightarrow> e \<noteq> [])
        then map_option Str (environ preference)
      else (case config ''DATABASE'' of
              None \<Rightarrow> None
            | Some section \<Rightarrow> map_option Str (section preference)))"

text \<open>\<^verbatim>\<open>cfg if cfg else self.x\<close>: \<^verbatim>\<open>None\<close> and every falsy value leave the class attribute.\<close>

definition or_default :: "pyval option \<Rightarrow> pyval \<Rightarrow> pyval" where
  "or_default cfg dflt = (case cfg of None \<Rightarrow> dflt | Some v \<Rightarrow> if truthy v then v else dflt)"

text \<open>\<^verbatim>\<open>Things3.__init__\<close>, on the object that starts with the class attributes.\<close>

definition init ::
  "config \<Rightarrow> environ \<Rightarrow> string \<Rightarrow>
   pyval option \<Rightarrow> pyval option \<Rightarrow> pyval option \<Rightarrow> pyval option \<Rightarrow> pyval option \<Rightarrow> things3" where
  "init config environ user database_arg tag_waiting_arg tag_mit_arg tag_cleanup_arg anonymize_arg =
     (let self = class_attributes user;
          self = self\<lparr>tag_waiting := or_default
                   (get_from_config config environ tag_waiting_arg ''TAG_WAITING'') (tag_waiting self)\<rparr>;
          self = self\<lparr>anonymize := or_default
                   (get_from_config config environ anonymize_arg ''ANONYMIZE'') (anonymize self)\<rparr>;
          self = self\<lparr>tag_mit := or_default
                   (get_from_config config environ tag_mit_arg ''TAG_MIT'') (tag_mit self)\<rparr>;
          self = self\<lparr>tag_cleanup := or_default
                   (get_from_config config environ tag_cleanup_arg ''TAG_CLEANUP'') (tag_cleanup self)\<rparr>;
          self = self\<lparr>database := or_default
                   (get_from_config config environ database_arg ''THINGSDB'') (database self)\<rparr>
      in self)"

section \<open>The web API's state changes\<close>

text \<open>
  A Flask \<^verbatim>\<open>Response\<close>: the JSON data of the body (absent when the call gives none), the content
  type (absent when the call leaves it to the framework) and the HTTP status.
\<close>

record 'a response =
  response :: "'a option"
  content_type :: "string option"
  rstatus :: nat

definition Response_200 :: "'a response" where
  "Response_200 = \<lparr> response = None, content_type = None, rstatus = 200 \<rparr>"

text \<open>\<^verbatim>\<open>Things3API.api_filter(mode, uuid)\<close>: two independent tests, then status 200.\<close>

definition api_filter :: "things3 \<Rightarrow> string \<Rightarrow> string \<Rightarrow> things3 \<times> 'a response" where
  "api_filter self mode uuid =
     (let self = (if mode = ''area'' \<and> uuid \<noteq> [] then self\<lparr>filter' := AreaFilter uuid\<rparr> else self);
          self = (if mode = ''project'' \<and> uuid \<noteq> [] then self\<lparr>filter' := ProjectFilter uuid\<rparr> else self)
      in (self, Response_200))"

definition api_filter_reset :: "things3 \<Rightarrow> things3 \<times> 'a response" where
  "api_filter_reset self = (self\<lparr>filter' := NoFilter\<rparr>, Response_200)"

text \<open>
  \<^verbatim>\<open>mode_project\<close> and \<^verbatim>\<open>mode_task\<close> are the two methods of \<^verbatim>\<open>Things3\<close> that switch the mode.
\<close>

definition mode_project :: "things3 \<Rightarrow> things3" where
  "mode_project self = self\<lparr>IS_TASK := MODE_PROJECT\<rparr>"

definition mode_task :: "things3 \<Rightarrow> things3" where
  "mode_task self = self\<lparr>IS_TASK := MODE_TASK\<rparr>"

text \<open>
  The methods of \<^verbatim>\<open>Things3\<close> that are called without argument for their effect on the
  object, by name. The class has no attribute of the name \<^verbatim>\<open>toggle_mode\<close>: besides these two
  it has its constants, its configuration, \<^verbatim>\<open>functions\<close>, and the methods \<^verbatim>\<open>get_from_config\<close>,
  \<^verbatim>\<open>anonymize_string\<close>, \<^verbatim>\<open>dict_factory\<close>, \<^verbatim>\<open>anonymize_tasks\<close>, \<^verbatim>\<open>execute_query\<close>, \<^verbatim>\<open>get_rows\<close> and
  the \<^verbatim>\<open>get_\<close> methods of the views.
\<close>

definition Things3_procedures :: "(string \<times> (things3 \<Rightarrow> things3)) list" where
  "Things3_procedures = [(''mode_project'', mode_project), (''mode_task'', mode_task)]"

text \<open>
  \<^verbatim>\<open>Things3API.api_toggle\<close>: \<^verbatim>\<open>self.things3.toggle_mode()\<close>, then \<^verbatim>\<open>Response(status=200)\<close>. Looking
  up an attribute that the object does not have raises \<^verbatim>\<open>AttributeError\<close>, before anything is
  assigned and before the response is built.
\<close>

definition api_toggle :: "things3 \<Rightarrow> things3 \<times> 'a response outcome" where
  "api_toggle self =
     (case map_of Things3_procedures ''toggle_mode'' of
        None \<Rightarrow> (self, Raise (AttributeError ''toggle_mode''))
      | Some toggle_mode \<Rightarrow> (toggle_mode self, Return Response_200))"

section \<open>Result rows\<close>

text \<open>
  A value of a result column as \<^verbatim>\<open>sqlite3\<close> hands it to Python: \<^verbatim>\<open>None\<close>, an integer or a
  string. \<^verbatim>\<open>dict_factory\<close> turns each result row into a dictionary from column name to value,
  in the order of the columns.
\<close>

datatype sqlval = Null | Integer int | Text string

type_synonym row = "(string \<times> sqlval) list"

text \<open>\<^verbatim>\<open>task[key] = v\<close>: an existing key keeps its place, a new one is added at the end.\<close>

fun setitem :: "string \<Rightarrow> sqlval \<Rightarrow> row \<Rightarrow> row" where
  "setitem key v [] = [(key, v)]"
| "setitem key v ((k, w) # task) = (if k = key then (k, v) # task else (k, w) # setitem key v task)"

text \<open>\<^verbatim>\<open>task[key]\<close>: the value, or \<^verbatim>\<open>KeyError\<close>.\<close>

definition getitem :: "row \<Rightarrow> string \<Rightarrow> sqlval outcome" where
  "getitem task key = (case map_of task key of None \<Rightarrow> Raise (KeyError key) | Some v \<Rightarrow> Return v)"

text \<open>Sequencing of calls: the first call that does not return ends the sequence.\<close>

fun and_then :: "'a outcome \<Rightarrow> ('a \<Rightarrow> 'b outcome) \<Rightarrow> 'b outcome" where
  "and_then (Return x) f = f x"
| "and_then (Raise e) f = Raise e"
| "and_then (SysExit n) f = SysExit n"

section \<open>The anonymizer\<close>

text \<open>
  \<^verbatim>\<open>random.shuffle\<close> is the standard library's: for \<^verbatim>\<open>i\<close> from \<^verbatim>\<open>len(x) - 1\<close> down to 1 it draws
  \<^verbatim>\<open>j = randbelow(i + 1)\<close> and exchanges \<^verbatim>\<open>x[i]\<close> and \<^verbatim>\<open>x[j]\<close>. The generator is a stream of
  numbers; a draw below \<^verbatim>\<open>n\<close> takes the next number modulo \<^verbatim>\<open>n\<close>.
\<close>

type_synonym rng = "nat \<Rightarrow> nat"

definition randbelow :: "rng \<Rightarrow> nat \<Rightarrow> nat \<times> rng" where
  "randbelow g n = (g 0 mod n, \<lambda>k. g (Suc k))"

fun shuffle_from :: "nat \<Rightarrow> 'a list \<Rightarrow> rng \<Rightarrow> 'a list \<times> rng" where
  "shuffle_from 0 x g = (x, g)"
| "shuffle_from (Suc i) x g =
     (let (j, g') = randbelow g (Suc i + 1)
      in shuffle_from i (x[Suc i := x ! j, j := x ! Suc i]) g')"

definition shuffle :: "'a list \<Rightarrow> rng \<Rightarrow> 'a list \<times> rng" where
  "shuffle x g = shuffle_from (length x - 1) x g"

text \<open>
  \<^verbatim>\<open>anonymize_string\<close>: \<^verbatim>\<open>None\<close> stays \<^verbatim>\<open>None\<close>, a string is shuffled; \<^verbatim>\<open>list(string)\<close> of an
  integer raises \<^verbatim>\<open>TypeError\<close>.
\<close>

fun anonymize_string :: "sqlval \<Rightarrow> rng \<Rightarrow> (sqlval \<times> rng) outcome" where
  "anonymize_string Null g = Return (Null, g)"
| "anonymize_string (Text string) g = (let (string', g') = shuffle string g in Return (Text string', g'))"
| "anonymize_string (Integer n) g = Raise TypeError"

text \<open>The body of the loop of \<^verbatim>\<open>anonymize_tasks\<close>: the title, then the context.\<close>

definition anonymize_task :: "row \<Rightarrow> rng \<Rightarrow> (row \<times> rng) outcome" where
  "anonymize_task task g =
     and_then (getitem task ''title'') (\<lambda>title.
     and_then (anonymize_string title g) (\<lambda>(title', g1).
     let task1 = setitem ''title'' title' task in
     and_then (getitem task1 ''context'') (\<lambda>context.
     and_then (anonymize_string context g1) (\<lambda>(context', g2).
     Return (setitem ''context'' context' task1, g2)))))"

fun anonymize_loop :: "row list \<Rightarrow> rng \<Rightarrow> (row list \<times> rng) outcome" where
  "anonymize_loop [] g = Return ([], g)"
| "anonymize_loop (task # tasks) g =
     and_then (anonymize_task task g) (\<lambda>(task', g1).
     and_then (anonymize_loop tasks g1) (\<lambda>(tasks', g2).
     Return (task' # tasks', g2)))"

definition anonymize_tasks :: "things3 \<Rightarrow> row list \<Rightarrow> rng \<Rightarrow> (row list \<times> rng) outcome" where
  "anonymize_tasks self tasks g =
     (if truthy (anonymize self) then anonymize_loop tasks g else Return (tasks, g))"

section \<open>The store\<close>

text \<open>
  The tables of the Things database that the queries read. \<^verbatim>\<open>uuid\<close> is the primary key of
  \<^verbatim>\<open>TMTask\<close>, \<^verbatim>\<open>TMArea\<close> and \<^verbatim>\<open>TMTag\<close>. The columns \<^verbatim>\<open>type\<close>, \<^verbatim>\<open>status\<close>, \<^verbatim>\<open>trashed\<close>, \<^verbatim>\<open>start\<close>,
  \<^verbatim>\<open>todayIndex\<close> and \<^verbatim>\<open>instanceCreationPaused\<close> hold integers; titles, dates, parent links and
  the recurrence rule can be \<^verbatim>\<open>NULL\<close>. Dates are Unix seconds (the fraction of a second, which
  changes no calendar day, is left out).
\<close>

record task_row =
  uuid :: string
  title :: "string option"
  type :: int
  status :: int
  trashed :: int
  start :: int
  creationDate :: "int option"
  userModificationDate :: "int option"
  dueDate :: "int option"
  startDate :: "int option"
  stopDate :: "int option"
  project :: "string option"
  area :: "string option"
  actionGroup :: "string option"
  todayIndex :: int
  recurrenceRule :: "string option"
  instanceCreationPaused :: int
  nextInstanceStartDate :: "int option"

record area_row =
  area_uuid :: string
  area_title :: "string option"

record tag_row =
  tag_uuid :: string
  tag_title :: "string option"

record tasktag_row =
  tasks :: string
  tags :: string

text \<open>
  The database at the time of a query: its tables, the clock (\<^verbatim>\<open>'now'\<close>, Unix seconds), and
  \<^verbatim>\<open>injected\<close>. The views paste the id of the scope filter and the name of a tag into the
  query text between quotes, as they are. A pasted text with a quote character ends the
  string literal early, and the query text is then another one than the view wrote: it may
  not parse (\<^verbatim>\<open>sqlite3.OperationalError\<close>), or select other rows, also rows of no task; a
  pasted text with a NUL character is refused before it is run
  (\<^verbatim>\<open>sqlite3.ProgrammingError\<close>). \<^verbatim>\<open>injected self label pasted\<close> is what running such a text
  gives on this database: an exception that is not an \<^verbatim>\<open>OperationalError\<close>, or the answer to
  the query (an \<^verbatim>\<open>OperationalError\<close> or rows); it is given for the state of the object, the
  method that builds the text, and the texts that the method pastes.
\<close>

record db =
  TMTask :: "task_row list"
  TMArea :: "area_row list"
  TMTag :: "tag_row list"
  TMTaskTag :: "tasktag_row list"
  now :: int
  injected :: "things3 \<Rightarrow> string \<Rightarrow> string list \<Rightarrow> exn + (string + row list)"

text \<open>
  What \<^verbatim>\<open>sqlite3.connect(self.database)\<close> finds: a database that answers, or one that cannot be
  opened (\<^verbatim>\<open>sqlite3.OperationalError\<close>, with its message). An \<^verbatim>\<open>OperationalError\<close> of
  \<^verbatim>\<open>cursor.execute\<close> on a database that opens is the answer \<^verbatim>\<open>Inl\<close> of the query.
\<close>

datatype store = Unavailable string | Available db

text \<open>
  The meaning of a query text: the rows it selects from a database, or the message of the
  \<^verbatim>\<open>sqlite3.OperationalError\<close> that running it raises.
\<close>

type_synonym query = "db \<Rightarrow> string + row list"

text \<open>
  \<^verbatim>\<open>execute_query(sql)\<close>. \<^verbatim>\<open>OperationalError\<close> comes from \<^verbatim>\<open>connect\<close> or from \<^verbatim>\<open>execute\<close>; the
  method then prints two lines and calls \<^verbatim>\<open>sys.exit(2)\<close>. An exception of \<^verbatim>\<open>anonymize_tasks\<close>
  is not caught. The printed lines are left out.
\<close>

definition execute_query ::
  "things3 \<Rightarrow> store \<Rightarrow> query \<Rightarrow> rng \<Rightarrow> (row list \<times> rng) outcome" where
  "execute_query self st sql g =
     (case st of
        Unavailable error \<Rightarrow> SysExit 2
      | Available d \<Rightarrow>
          (case sql d of
             Inl error \<Rightarrow> SysExit 2
           | Inr rows \<Rightarrow> anonymize_tasks self rows g))"

section \<open>SQL: dates\<close>

text \<open>
  \<^verbatim>\<open>date(X, "unixepoch")\<close> of SQLite: the calendar day (UTC) of \<^verbatim>\<open>X\<close> seconds after 1970-01-01,
  printed as \<^verbatim>\<open>YYYY-MM-DD\<close>; \<^verbatim>\<open>NULL\<close> for \<^verbatim>\<open>NULL\<close> and outside the days SQLite prints
  (-4713-11-24 12:00 to 9999-12-31). \<^verbatim>\<open>civil_from_days\<close> is the proleptic Gregorian date of a
  day number.
\<close>

definition digit :: "nat \<Rightarrow> char" where
  "digit n = ''0123456789'' ! n"

definition pad2 :: "nat \<Rightarrow> string" where
  "pad2 n = [digit (n div 10 mod 10), digit (n mod 10)]"

definition pad4 :: "nat \<Rightarrow> string" where
  "pad4 n = [digit (n div 1000 mod 10), digit (n div 100 mod 10), digit (n div 10 mod 10), digit (n mod 10)]"

definition civil_from_days :: "int \<Rightarrow> int \<times> int \<times> int" where
  "civil_from_days z0 =
     (let z = z0 + 719468;
          era = z div 146097;
          doe = z - era * 146097;
          yoe = (doe - doe div 1460 + doe div 36524 - doe div 146096) div 365;
          y = yoe + era * 400;
          doy = doe - (365 * yoe + yoe div 4 - yoe div 100);
          mp = (5 * doy + 2) div 153;
          dd = doy - (153 * mp + 2) div 5 + 1;
          m = (if mp < 10 then mp + 3 else mp - 9)
      in (if m \<le> 2 then y + 1 else y, m, dd))"

definition date_text :: "int \<Rightarrow> string" where
  "date_text z =
     (case civil_from_days z of (y, m, dd) \<Rightarrow>
        (if y < 0 then ''-'' else []) @ pad4 (nat \<bar>y\<bar>) @ ''-'' @ pad2 (nat m) @ ''-'' @ pad2 (nat dd))"

definition date_unixepoch :: "int option \<Rightarrow> sqlval" where
  "date_unixepoch ts =
     (case ts of
        None \<Rightarrow> Null
      | Some s \<Rightarrow>
          if - 210866760000 \<le> s \<and> s \<le> 253402300799 then Text (date_text (s div 86400)) else Null)"

section \<open>SQL: the conditions of the class\<close>

text \<open>
  The class constants are SQL conditions on one row of \<^verbatim>\<open>TMTask\<close>; each is given as the
  predicate it states. \<^verbatim>\<open>IS_TASK\<close> is an attribute of the object (\<^verbatim>\<open>mode_project\<close> and
  \<^verbatim>\<open>mode_task\<close> assign it), so its predicate reads the state.
\<close>

definition IS_INBOX :: "task_row \<Rightarrow> bool" where
  "IS_INBOX r = (start r = 0)"

definition IS_ANYTIME :: "task_row \<Rightarrow> bool" where
  "IS_ANYTIME r = (start r = 1)"

definition IS_SOMEDAY :: "task_row \<Rightarrow> bool" where
  "IS_SOMEDAY r = (start r = 2)"

definition IS_SCHEDULED :: "task_row \<Rightarrow> bool" where
  "IS_SCHEDULED r = (startDate r \<noteq> None)"

definition IS_NOT_SCHEDULED :: "task_row \<Rightarrow> bool" where
  "IS_NOT_SCHEDULED r = (startDate r = None)"

definition IS_DUE :: "task_row \<Rightarrow> bool" where
  "IS_DUE r = (dueDate r \<noteq> None)"

definition IS_RECURRING :: "task_row \<Rightarrow> bool" where
  "IS_RECURRING r = (recurrenceRule r \<noteq> None)"

definition IS_NOT_RECURRING :: "task_row \<Rightarrow> bool" where
  "IS_NOT_RECURRING r = (recurrenceRule r = None)"

definition IS_PROJECT :: "task_row \<Rightarrow> bool" where
  "IS_PROJECT r = (type r = 1)"

definition IS_TRASHED :: "task_row \<Rightarrow> bool" where
  "IS_TRASHED r = (trashed r = 1)"

definition IS_NOT_TRASHED :: "task_row \<Rightarrow> bool" where
  "IS_NOT_TRASHED r = (trashed r = 0)"

definition IS_OPEN :: "task_row \<Rightarrow> bool" where
  "IS_OPEN r = (status r = 0)"

definition IS_CANCELLED :: "task_row \<Rightarrow> bool" where
  "IS_CANCELLED r = (status r = 2)"

definition IS_DONE :: "task_row \<Rightarrow> bool" where
  "IS_DONE r = (status r = 3)"

definition RECURRING_IS_NOT_PAUSED :: "task_row \<Rightarrow> bool" where
  "RECURRING_IS_NOT_PAUSED r = (instanceCreationPaused r = 0)"

definition RECURRING_HAS_NEXT_STARTDATE :: "task_row \<Rightarrow> bool" where
  "RECURRING_HAS_NEXT_STARTDATE r = (nextInstanceStartDate r \<noteq> None)"

definition is_task :: "things3 \<Rightarrow> task_row \<Rightarrow> bool" where
  "is_task self r = (type r = IS_TASK self)"

section \<open>SQL: the joined rows of \<^verbatim>\<open>get_rows\<close>\<close>

text \<open>
  \<^verbatim>\<open>FROM TMTask AS TASK\<close> with six left outer joins. A join on a primary key finds at most one
  row; a join that finds none leaves all its columns \<^verbatim>\<open>NULL\<close> (\<^verbatim>\<open>None\<close> here). The join with
  \<^verbatim>\<open>TMTaskTag\<close> gives one joined row for each tag of the task, and one without tag when the task
  has none.
\<close>

record joined =
  TASK :: task_row
  PROJECT :: "task_row option"
  AREA :: "area_row option"
  HEADING :: "task_row option"
  HEADPROJ :: "task_row option"
  TAGS :: "tasktag_row option"
  TAG :: "tag_row option"

definition task_by_uuid :: "db \<Rightarrow> string option \<Rightarrow> task_row option" where
  "task_by_uuid d key = (case key of None \<Rightarrow> None | Some u \<Rightarrow> find (\<lambda>r. uuid r = u) (TMTask d))"

definition area_by_uuid :: "db \<Rightarrow> string option \<Rightarrow> area_row option" where
  "area_by_uuid d key = (case key of None \<Rightarrow> None | Some u \<Rightarrow> find (\<lambda>r. area_uuid r = u) (TMArea d))"

definition tag_by_uuid :: "db \<Rightarrow> string option \<Rightarrow> tag_row option" where
  "tag_by_uuid d key = (case key of None \<Rightarrow> None | Some u \<Rightarrow> find (\<lambda>r. tag_uuid r = u) (TMTag d))"

definition tags_of :: "db \<Rightarrow> task_row \<Rightarrow> tasktag_row option list" where
  "tags_of d t =
     (case filter (\<lambda>x. tasks x = uuid t) (TMTaskTag d) of
        [] \<Rightarrow> [None]
      | x # xs \<Rightarrow> map Some (x # xs))"

definition join_task :: "db \<Rightarrow> task_row \<Rightarrow> tasktag_row option \<Rightarrow> joined" where
  "join_task d t tg =
     (let heading = task_by_uuid d (actionGroup t) in
      \<lparr> TASK = t,
        PROJECT = task_by_uuid d (project t),
        AREA = area_by_uuid d (area t),
        HEADING = heading,
        HEADPROJ = task_by_uuid d (Option.bind heading project),
        TAGS = tg,
        TAG = tag_by_uuid d (map_option tags tg) \<rparr>)"

definition joined_rows :: "db \<Rightarrow> joined list" where
  "joined_rows d = concat (map (\<lambda>t. map (join_task d t) (tags_of d t)) (TMTask d))"

text \<open>
  A column of a joined table, \<^verbatim>\<open>NULL\<close> when the join found no row; and a condition of the
  class on a joined table, which is not true when the join found no row. The conditions of
  the views combine such conditions with \<^verbatim>\<open>AND\<close> and \<^verbatim>\<open>OR\<close> only, so a condition that is
  \<^verbatim>\<open>NULL\<close> counts as one that is false.
\<close>

definition col :: "'r option \<Rightarrow> ('r \<Rightarrow> 'a option) \<Rightarrow> 'a option" where
  "col t c = Option.bind t c"

definition holds :: "'r option \<Rightarrow> ('r \<Rightarrow> bool) \<Rightarrow> bool" where
  "holds t c = (case t of None \<Rightarrow> False | Some r \<Rightarrow> c r)"

text \<open>
  The condition of the scope filter, in front of every condition of \<^verbatim>\<open>get_rows\<close>:
  \<^verbatim>\<open>TASK.area = 'id' AND\<close>, or \<^verbatim>\<open>(TASK.project = 'id' OR HEADING.project = 'id') AND\<close>. This is
  what the text means for a plain id; \<^verbatim>\<open>get_rows\<close> uses it for no other.
\<close>

fun filter_cond :: "scope_filter \<Rightarrow> joined \<Rightarrow> bool" where
  "filter_cond NoFilter j = True"
| "filter_cond (AreaFilter ident) j = (area (TASK j) = Some ident)"
| "filter_cond (ProjectFilter ident) j =
     (project (TASK j) = Some ident \<or> col (HEADING j) project = Some ident)"

section \<open>SQL: the columns \<^verbatim>\<open>get_rows\<close> selects\<close>

definition text_or_null :: "string option \<Rightarrow> sqlval" where
  "text_or_null s = (case s of None \<Rightarrow> Null | Some x \<Rightarrow> Text x)"

text \<open>
  \<^verbatim>\<open>CASE WHEN AREA.title IS NOT NULL THEN AREA.title WHEN PROJECT.title IS NOT NULL THEN
  PROJECT.title WHEN HEADING.title IS NOT NULL THEN HEADING.title END AS context\<close>
\<close>

definition context_title :: "joined \<Rightarrow> string option" where
  "context_title j =
     (if col (AREA j) area_title \<noteq> None then col (AREA j) area_title
      else if col (PROJECT j) title \<noteq> None then col (PROJECT j) title
      else if col (HEADING j) title \<noteq> None then col (HEADING j) title
      else None)"

text \<open>
  \<^verbatim>\<open>CASE WHEN AREA.uuid IS NOT NULL THEN AREA.uuid WHEN PROJECT.uuid IS NOT NULL THEN
  PROJECT.uuid END AS context_uuid\<close>
\<close>

definition context_uuid :: "joined \<Rightarrow> string option" where
  "context_uuid j =
     (if map_option area_uuid (AREA j) \<noteq> None then map_option area_uuid (AREA j)
      else if map_option uuid (PROJECT j) \<noteq> None then map_option uuid (PROJECT j)
      else None)"

text \<open>
  \<^verbatim>\<open>(SELECT COUNT(uuid) FROM TMTask AS PROJECT_TASK WHERE PROJECT_TASK.project = TASK.uuid AND
  PROJECT_TASK.trashed = 0 AND PROJECT_TASK.status = 0)\<close>, for the \<^verbatim>\<open>TASK.uuid\<close> given.
\<close>

definition count_project_tasks :: "db \<Rightarrow> string \<Rightarrow> nat" where
  "count_project_tasks d ident =
     length (filter (\<lambda>PROJECT_TASK. project PROJECT_TASK = Some ident \<and>
                        IS_NOT_TRASHED PROJECT_TASK \<and> IS_OPEN PROJECT_TASK) (TMTask d))"

definition type_name :: "int \<Rightarrow> sqlval" where
  "type_name k = (if k = 0 then Text ''task'' else if k = 1 then Text ''project''
                  else if k = 2 then Text ''heading'' else Null)"

definition select_row :: "db \<Rightarrow> joined \<Rightarrow> row" where
  "select_row d j =
     [(''uuid'', Text (uuid (TASK j))),
      (''title'', text_or_null (title (TASK j))),
      (''context'', text_or_null (context_title j)),
      (''context_uuid'', text_or_null (context_uuid j)),
      (''due'', if recurrenceRule (TASK j) = None then date_unixepoch (dueDate (TASK j)) else Null),
      (''created'', date_unixepoch (creationDate (TASK j))),
      (''modified'', date_unixepoch (userModificationDate (TASK j))),
      (''started'', date_unixepoch (startDate (TASK j))),
      (''stopped'', date_unixepoch (stopDate (TASK j))),
      (''size'', Integer (int (count_project_tasks d (uuid (TASK j))))),
      (''type'', type_name (type (TASK j)))]"

section \<open>SQL: ordering\<close>

text \<open>
  \<^verbatim>\<open>ORDER BY\<close> is a stable sort by a key. SQLite puts \<^verbatim>\<open>NULL\<close> before every value, so first
  when ascending and last when descending. SQLite leaves the order of rows with equal keys
  open; here they keep the order of the table.
\<close>

definition asc :: "'a option \<Rightarrow> nat \<times> 'a list" where
  "asc v = (case v of None \<Rightarrow> (0, []) | Some x \<Rightarrow> (1, [x]))"

definition desc :: "int option \<Rightarrow> nat \<times> int" where
  "desc v = (case v of None \<Rightarrow> (1, 0) | Some x \<Rightarrow> (0, - x))"

section \<open>\<^verbatim>\<open>get_rows\<close>\<close>

text \<open>
  \<^verbatim>\<open>SELECT DISTINCT ... WHERE {self.filter} {sql}\<close>, for a filter and a condition whose pasted
  texts are plain: the argument of \<^verbatim>\<open>get_rows\<close> is a condition followed by an \<^verbatim>\<open>ORDER BY\<close>,
  given here as the condition and the ordering.
\<close>

definition get_rows_query ::
  "things3 \<Rightarrow> (db \<Rightarrow> joined \<Rightarrow> bool) \<Rightarrow> (joined list \<Rightarrow> joined list) \<Rightarrow> query" where
  "get_rows_query self cond order_by d =
     Inr (remdups (map (select_row d)
            (order_by (filter (\<lambda>j. filter_cond (filter' self) j \<and> cond d j) (joined_rows d)))))"

text \<open>
  A text that stands for itself between the quotes of an SQL string literal: it has no quote
  character and no NUL character.
\<close>

definition plain :: "string \<Rightarrow> bool" where
  "plain s = (quote \<notin> set s \<and> CHR 0x00 \<notin> set s)"

fun filter_plain :: "scope_filter \<Rightarrow> bool" where
  "filter_plain NoFilter = True"
| "filter_plain (AreaFilter ident) = plain ident"
| "filter_plain (ProjectFilter ident) = plain ident"

text \<open>
  \<^verbatim>\<open>get_rows(sql)\<close> puts \<^verbatim>\<open>self.filter\<close> and \<^verbatim>\<open>sql\<close> into the query text and hands it to
  \<^verbatim>\<open>execute_query\<close>. \<^verbatim>\<open>label\<close> names the method that wrote \<^verbatim>\<open>sql\<close> and \<^verbatim>\<open>pasted\<close> lists the texts
  it pasted into it. When the id of the filter and the pasted texts are plain, the text is the
  query of \<^verbatim>\<open>get_rows_query\<close>. When one of them is not, \<^verbatim>\<open>connect\<close> fails on a store that
  cannot be opened as for every query, and on a database that answers the outcome is that of
  \<^verbatim>\<open>injected\<close>.
\<close>

definition get_rows ::
  "things3 \<Rightarrow> store \<Rightarrow> string \<Rightarrow> string list \<Rightarrow> (db \<Rightarrow> joined \<Rightarrow> bool) \<Rightarrow>
   (joined list \<Rightarrow> joined list) \<Rightarrow> rng \<Rightarrow> (row list \<times> rng) outcome" where
  "get_rows self st label pasted cond order_by g =
     (if filter_plain (filter' self) \<and> list_all plain pasted
      then execute_query self st (get_rows_query self cond order_by) g
      else
        (case st of
           Unavailable error \<Rightarrow> SysExit 2
         | Available d \<Rightarrow>
             (case injected d self label pasted of
                Inl e \<Rightarrow> Raise e
              | Inr answer \<Rightarrow> execute_query self st (\<lambda>d. answer) g)))"

section \<open>The views\<close>

text \<open>
  The block that most views end with:
  \<^verbatim>\<open>(PROJECT.title IS NULL OR (PROJECT.trashed = 0)) AND (HEADPROJ.title IS NULL OR
  (HEADPROJ.trashed = 0))\<close>.
\<close>

definition containers_not_trashed :: "joined \<Rightarrow> bool" where
  "containers_not_trashed j =
     ((col (PROJECT j) title = None \<or> holds (PROJECT j) IS_NOT_TRASHED) \<and>
      (col (HEADPROJ j) title = None \<or> holds (HEADPROJ j) IS_NOT_TRASHED))"

definition get_inbox :: "things3 \<Rightarrow> store \<Rightarrow> rng \<Rightarrow> (row list \<times> rng) outcome" where
  "get_inbox self st g =
     get_rows self st ''get_inbox'' []
       (\<lambda>d j. IS_NOT_TRASHED (TASK j) \<and> is_task self (TASK j) \<and> IS_OPEN (TASK j) \<and>
               IS_INBOX (TASK j))
       (sort_key (\<lambda>j. (desc (dueDate (TASK j)), todayIndex (TASK j)))) g"

text \<open>
  \<^verbatim>\<open>TASK.startDate <= strftime('%s', 'now')\<close> compares numbers, the column being numeric; it is
  not true for a \<^verbatim>\<open>NULL\<close> start date.
\<close>

definition get_today :: "things3 \<Rightarrow> store \<Rightarrow> rng \<Rightarrow> (row list \<times> rng) outcome" where
  "get_today self st g =
     get_rows self st ''get_today'' []
       (\<lambda>d j. IS_NOT_TRASHED (TASK j) \<and> is_task self (TASK j) \<and> IS_OPEN (TASK j) \<and>
               (IS_ANYTIME (TASK j) \<or>
                (IS_SOMEDAY (TASK j) \<and>
                 (case startDate (TASK j) of None \<Rightarrow> False | Some s \<Rightarrow> s \<le> now d))) \<and>
               IS_SCHEDULED (TASK j) \<and> containers_not_trashed j)
       (sort_key (\<lambda>j. (desc (dueDate (TASK j)), todayIndex (TASK j)))) g"

definition get_someday :: "things3 \<Rightarrow> store \<Rightarrow> rng \<Rightarrow> (row list \<times> rng) outcome" where
  "get_someday self st g =
     get_rows self st ''get_someday'' []
       (\<lambda>d j. IS_NOT_TRASHED (TASK j) \<and> is_task self (TASK j) \<and> IS_OPEN (TASK j) \<and>
               IS_SOMEDAY (TASK j) \<and> IS_NOT_SCHEDULED (TASK j) \<and> IS_NOT_RECURRING (TASK j) \<and>
               containers_not_trashed j)
       (sort_key (\<lambda>j. (desc (dueDate (TASK j)), desc (creationDate (TASK j))))) g"

definition get_upcoming :: "things3 \<Rightarrow> store \<Rightarrow> rng \<Rightarrow> (row list \<times> rng) outcome" where
  "get_upcoming self st g =
     get_rows self st ''get_upcoming'' []
       (\<lambda>d j. IS_NOT_TRASHED (TASK j) \<and> is_task self (TASK j) \<and> IS_OPEN (TASK j) \<and>
               IS_SOMEDAY (TASK j) \<and> IS_SCHEDULED (TASK j) \<and> IS_NOT_RECURRING (TASK j) \<and>
               containers_not_trashed j)
       (sort_key (\<lambda>j. (asc (startDate (TASK j)), todayIndex (TASK j)))) g"

text \<open>
  \<^verbatim>\<open>TAGS.tags = (SELECT uuid FROM TMTag WHERE title = '{tag}')\<close>: the subquery gives the id of
  the first tag of that title, or \<^verbatim>\<open>NULL\<close>. The tag name is pasted into the text as \<^verbatim>\<open>str\<close>
  prints it; \<^verbatim>\<open>get_tag\<close> hands it to \<^verbatim>\<open>get_rows\<close> as a pasted text, and this reading of the
  subquery is used for a plain name only.
\<close>

fun py_str :: "pyval \<Rightarrow> string" where
  "py_str (Str s) = s"
| "py_str (Bool b) = (if b then ''True'' else ''False'')"

definition tag_subquery :: "db \<Rightarrow> string \<Rightarrow> string option" where
  "tag_subquery d tag =
     (case filter (\<lambda>t. tag_title t = Some tag) (TMTag d) of [] \<Rightarrow> None | t # ts \<Rightarrow> Some (tag_uuid t))"

definition get_tag :: "things3 \<Rightarrow> pyval \<Rightarrow> store \<Rightarrow> rng \<Rightarrow> (row list \<times> rng) outcome" where
  "get_tag self tag st g =
     get_rows self st ''get_tag'' [py_str tag]
       (\<lambda>d j. IS_NOT_TRASHED (TASK j) \<and> is_task self (TASK j) \<and> IS_OPEN (TASK j) \<and>
               IS_NOT_RECURRING (TASK j) \<and>
               (case (TAGS j, tag_subquery d (py_str tag)) of
                  (Some x, Some u) \<Rightarrow> tags x = u
                | _ \<Rightarrow> False) \<and>
               containers_not_trashed j)
       (sort_key (\<lambda>j. (desc (dueDate (TASK j)), todayIndex (TASK j)))) g"

definition get_waiting :: "things3 \<Rightarrow> store \<Rightarrow> rng \<Rightarrow> (row list \<times> rng) outcome" where
  "get_waiting self st g = get_tag self (tag_waiting self) st g"

definition get_mit :: "things3 \<Rightarrow> store \<Rightarrow> rng \<Rightarrow> (row list \<times> rng) outcome" where
  "get_mit self st g = get_tag self (tag_mit self) st g"

text \<open>
  \<^verbatim>\<open>get_anytime\<close>: the first condition, and the second one in its place when
  \<^verbatim>\<open>self.filter\<close> is a non-empty text.
\<close>

definition get_anytime :: "things3 \<Rightarrow> store \<Rightarrow> rng \<Rightarrow> (row list \<times> rng) outcome" where
  "get_anytime self st g =
     (if filter_sql (filter' self) \<noteq> []
      then
        get_rows self st ''get_anytime'' []
          (\<lambda>d j. IS_NOT_TRASHED (TASK j) \<and> is_task self (TASK j) \<and> IS_OPEN (TASK j) \<and>
                  IS_ANYTIME (TASK j) \<and> IS_NOT_SCHEDULED (TASK j) \<and>
                  ((col (PROJECT j) title = None \<or> holds (PROJECT j) IS_NOT_TRASHED) \<and>
                   (col (HEADPROJ j) title = None \<or> holds (HEADPROJ j) IS_NOT_TRASHED)))
          (sort_key (\<lambda>j. (desc (dueDate (TASK j)), todayIndex (TASK j)))) g
      else
        get_rows self st ''get_anytime'' []
          (\<lambda>d j. IS_NOT_TRASHED (TASK j) \<and> is_task self (TASK j) \<and> IS_OPEN (TASK j) \<and>
                  IS_ANYTIME (TASK j) \<and> IS_NOT_SCHEDULED (TASK j) \<and>
                  ((col (PROJECT j) title = None \<or>
                      (holds (PROJECT j) IS_ANYTIME \<and> holds (PROJECT j) IS_NOT_SCHEDULED \<and>
                       holds (PROJECT j) IS_NOT_TRASHED)) \<and>
                   (col (HEADPROJ j) title = None \<or>
                      (holds (HEADPROJ j) IS_ANYTIME \<and> holds (HEADPROJ j) IS_NOT_SCHEDULED \<and>
                       holds (HEADPROJ j) IS_NOT_TRASHED))))
          (sort_key (\<lambda>j. (desc (dueDate (TASK j)), todayIndex (TASK j)))) g)"

definition get_completed :: "things3 \<Rightarrow> store \<Rightarrow> rng \<Rightarrow> (row list \<times> rng) outcome" where
  "get_completed self st g =
     get_rows self st ''get_completed'' []
       (\<lambda>d j. IS_NOT_TRASHED (TASK j) \<and> is_task self (TASK j) \<and> IS_DONE (TASK j))
       (sort_key (\<lambda>j. asc (stopDate (TASK j)))) g"

definition get_cancelled :: "things3 \<Rightarrow> store \<Rightarrow> rng \<Rightarrow> (row list \<times> rng) outcome" where
  "get_cancelled self st g =
     get_rows self st ''get_cancelled'' []
       (\<lambda>d j. IS_NOT_TRASHED (TASK j) \<and> is_task self (TASK j) \<and> IS_CANCELLED (TASK j))
       (sort_key (\<lambda>j. asc (stopDate (TASK j)))) g"

definition get_trashed :: "things3 \<Rightarrow> store \<Rightarrow> rng \<Rightarrow> (row list \<times> rng) outcome" where
  "get_trashed self st g =
     get_rows self st ''get_trashed'' []
       (\<lambda>d j. IS_TRASHED (TASK j) \<and> is_task self (TASK j))
       (sort_key (\<lambda>j. asc (stopDate (TASK j)))) g"

text \<open>\<^verbatim>\<open>get_projects\<close> and \<^verbatim>\<open>get_areas\<close> select from one table and go to \<^verbatim>\<open>execute_query\<close>.\<close>

definition get_projects_query :: query where
  "get_projects_query d =
     Inr (map (\<lambda>t. [(''uuid'', Text (uuid t)), (''title'', text_or_null (title t)), (''context'', Null)])
            (sort_key (\<lambda>t. asc (title t))
               (filter (\<lambda>t. IS_NOT_TRASHED t \<and> IS_PROJECT t \<and> IS_OPEN t) (TMTask d))))"

definition get_projects :: "things3 \<Rightarrow> store \<Rightarrow> rng \<Rightarrow> (row list \<times> rng) outcome" where
  "get_projects self st g = execute_query self st get_projects_query g"

definition get_areas_query :: query where
  "get_areas_query d =
     Inr (map (\<lambda>a. [(''uuid'', Text (area_uuid a)), (''title'', text_or_null (area_title a))])
            (sort_key (\<lambda>a. asc (area_title a)) (TMArea d)))"

definition get_areas :: "things3 \<Rightarrow> store \<Rightarrow> rng \<Rightarrow> (row list \<times> rng) outcome" where
  "get_areas self st g = execute_query self st get_areas_query g"

definition get_all :: "things3 \<Rightarrow> store \<Rightarrow> rng \<Rightarrow> (row list \<times> rng) outcome" where
  "get_all self st g =
     get_rows self st ''get_all'' []
       (\<lambda>d j. IS_NOT_TRASHED (TASK j) \<and> is_task self (TASK j) \<and> containers_not_trashed j)
       (\<lambda>js. js) g"

definition get_due :: "things3 \<Rightarrow> store \<Rightarrow> rng \<Rightarrow> (row list \<times> rng) outcome" where
  "get_due self st g =
     get_rows self st ''get_due'' []
       (\<lambda>d j. IS_NOT_TRASHED (TASK j) \<and> is_task self (TASK j) \<and> IS_OPEN (TASK j) \<and>
               IS_DUE (TASK j) \<and> containers_not_trashed j)
       (sort_key (\<lambda>j. asc (dueDate (TASK j)))) g"

definition get_lint :: "things3 \<Rightarrow> store \<Rightarrow> rng \<Rightarrow> (row list \<times> rng) outcome" where
  "get_lint self st g =
     get_rows self st ''get_lint'' []
       (\<lambda>d j. IS_NOT_TRASHED (TASK j) \<and> IS_OPEN (TASK j) \<and> is_task self (TASK j) \<and>
               (IS_SOMEDAY (TASK j) \<or> IS_ANYTIME (TASK j)) \<and>
               project (TASK j) = None \<and> area (TASK j) = None \<and> actionGroup (TASK j) = None)
       (\<lambda>js. js) g"

text \<open>
  \<^verbatim>\<open>get_empty_projects\<close>: \<^verbatim>\<open>GROUP BY TASK.uuid\<close> puts together the joined rows of one task, which
  differ in the tag only and select the same columns; \<^verbatim>\<open>HAVING\<close> keeps the tasks for which the
  count is 0.
\<close>

definition get_empty_projects :: "things3 \<Rightarrow> store \<Rightarrow> rng \<Rightarrow> (row list \<times> rng) outcome" where
  "get_empty_projects self st g =
     get_rows self st ''get_empty_projects'' []
       (\<lambda>d j. IS_NOT_TRASHED (TASK j) \<and> IS_OPEN (TASK j) \<and> IS_PROJECT (TASK j) \<and>
               IS_ANYTIME (TASK j) \<and>
               length (filter (\<lambda>PROJECT_TASK.
                   project PROJECT_TASK = Some (uuid (TASK j)) \<and>
                   IS_NOT_TRASHED PROJECT_TASK \<and> IS_OPEN PROJECT_TASK \<and>
                   (IS_ANYTIME PROJECT_TASK \<or> IS_SCHEDULED PROJECT_TASK \<or>
                    (IS_RECURRING PROJECT_TASK \<and> RECURRING_IS_NOT_PAUSED PROJECT_TASK \<and>
                     RECURRING_HAS_NEXT_STARTDATE PROJECT_TASK))) (TMTask d)) = 0)
       (\<lambda>js. js) g"

text \<open>
  \<^verbatim>\<open>get_largest_projects\<close>: one row for each open project that is not trashed (\<^verbatim>\<open>GROUP BY\<close> the
  primary key), with the count of its open children that are not trashed,
  \<^verbatim>\<open>ORDER BY tasks DESC\<close>. The two dates are the columns as stored.
\<close>

definition int_or_null :: "int option \<Rightarrow> sqlval" where
  "int_or_null v = (case v of None \<Rightarrow> Null | Some x \<Rightarrow> Integer x)"

definition get_largest_projects_query :: query where
  "get_largest_projects_query d =
     Inr (map (\<lambda>t. [(''uuid'', Text (uuid t)),
                     (''title'', text_or_null (title t)),
                     (''created'', int_or_null (creationDate t)),
                     (''modified'', int_or_null (userModificationDate t)),
                     (''tasks'', Integer (int (count_project_tasks d (uuid t))))])
            (sort_key (\<lambda>t. - int (count_project_tasks d (uuid t)))
               (filter (\<lambda>t. IS_NOT_TRASHED t \<and> IS_OPEN t \<and> IS_PROJECT t) (TMTask d))))"

definition get_largest_projects :: "things3 \<Rightarrow> store \<Rightarrow> rng \<Rightarrow> (row list \<times> rng) outcome" where
  "get_largest_projects self st g = execute_query self st get_largest_projects_query g"

text \<open>
  \<^verbatim>\<open>get_daystats\<close>: \<^verbatim>\<open>timeseries\<close> holds \<^verbatim>\<open>x\<close> = 0, ..., \<^verbatim>\<open>days - 1\<close>; the date of row \<^verbatim>\<open>x\<close> is
  \<^verbatim>\<open>date(julianday("now", "-365 days"), "+x days")\<close>. Each of the four subqueries counts, for
  each day that has one, the tasks with that day in its date column; the left join gives the
  count of the row's date, and \<^verbatim>\<open>NULL\<close> when the subquery has no such day.
\<close>

definition days :: int where
  "days = 365"

definition timeseries_date :: "db \<Rightarrow> int \<Rightarrow> sqlval" where
  "timeseries_date d x = date_unixepoch (Some (now d - days * 86400 + x * 86400))"

definition day_count :: "db \<Rightarrow> (task_row \<Rightarrow> bool) \<Rightarrow> (task_row \<Rightarrow> int option) \<Rightarrow> sqlval \<Rightarrow> nat" where
  "day_count d cond date_column day =
     length (filter (\<lambda>t. date_unixepoch (date_column t) \<noteq> Null \<and> cond t \<and>
                         date_unixepoch (date_column t) = day) (TMTask d))"

definition left_join_count :: "nat \<Rightarrow> sqlval" where
  "left_join_count n = (if n = 0 then Null else Integer (int n))"

definition get_daystats_query :: "things3 \<Rightarrow> query" where
  "get_daystats_query self d =
     Inr (map (\<lambda>x.
            [(''date'', timeseries_date d x),
             (''created'', left_join_count
                (day_count d (is_task self) creationDate (timeseries_date d x))),
             (''completed'', left_join_count
                (day_count d (\<lambda>t. IS_DONE t \<and> is_task self t) stopDate (timeseries_date d x))),
             (''cancelled'', left_join_count
                (day_count d (\<lambda>t. IS_CANCELLED t \<and> is_task self t) stopDate (timeseries_date d x))),
             (''trashed'', left_join_count
                (day_count d (\<lambda>t. IS_TRASHED t \<and> is_task self t) userModificationDate
                   (timeseries_date d x)))])
          [0..days - 1])"

definition get_daystats :: "things3 \<Rightarrow> store \<Rightarrow> rng \<Rightarrow> (row list \<times> rng) outcome" where
  "get_daystats self st g = execute_query self st (get_daystats_query self) g"

text \<open>
  \<^verbatim>\<open>get_minutes_today\<close>: \<^verbatim>\<open>printf("%d", TAG.title) = TAG.title\<close> holds for the titles that are
  the decimal text of a 64-bit integer; \<^verbatim>\<open>SUM\<close> adds their numbers over the joined rows, is
  \<^verbatim>\<open>NULL\<close> over no rows, and fails with \<^verbatim>\<open>integer overflow\<close> when a partial sum leaves the
  64-bit range.
\<close>

fun nat_text :: "nat \<Rightarrow> string" where
  "nat_text n = (if n < 10 then [digit n] else nat_text (n div 10) @ [digit (n mod 10)])"

definition int_text :: "int \<Rightarrow> string" where
  "int_text i = (if i < 0 then ''-'' @ nat_text (nat (- i)) else nat_text (nat i))"

definition is_digit :: "char \<Rightarrow> bool" where
  "is_digit c = (c \<in> set ''0123456789'')"

definition is_space :: "char \<Rightarrow> bool" where
  "is_space c = (c \<in> set [CHR '' '', CHR 0x09, CHR 0x0A, CHR 0x0B, CHR 0x0C, CHR 0x0D])"

definition digits_value :: "string \<Rightarrow> int" where
  "digits_value s = foldl (\<lambda>a c. 10 * a + (of_char c - 48)) 0 s"

definition clamp64 :: "int \<Rightarrow> int" where
  "clamp64 i = max (- 9223372036854775808) (min 9223372036854775807 i)"

definition cast_integer :: "string \<Rightarrow> int" where
  "cast_integer s =
     (let s1 = dropWhile is_space s;
          negative = (s1 \<noteq> [] \<and> hd s1 = CHR ''-'');
          s2 = (if s1 \<noteq> [] \<and> (hd s1 = CHR ''-'' \<or> hd s1 = CHR ''+'') then tl s1 else s1);
          n = digits_value (takeWhile is_digit s2)
      in clamp64 (if negative then - n else n))"

fun sum_integers :: "int \<Rightarrow> int list \<Rightarrow> int option" where
  "sum_integers a [] = Some a"
| "sum_integers a (x # xs) =
     (if - 9223372036854775808 \<le> a + x \<and> a + x \<le> 9223372036854775807
      then sum_integers (a + x) xs else None)"

definition get_minutes_today_query :: "things3 \<Rightarrow> query" where
  "get_minutes_today_query self d =
     (let selected = filter (\<lambda>j.
            (case col (TAG j) tag_title of
               None \<Rightarrow> False
             | Some s \<Rightarrow> int_text (cast_integer s) = s) \<and>
            IS_NOT_TRASHED (TASK j) \<and> is_task self (TASK j) \<and> IS_OPEN (TASK j) \<and>
            IS_ANYTIME (TASK j) \<and> IS_SCHEDULED (TASK j) \<and> containers_not_trashed j)
          (joined_rows d);
          titles = map (\<lambda>j. case col (TAG j) tag_title of None \<Rightarrow> 0 | Some s \<Rightarrow> cast_integer s) selected
      in if titles = [] then Inr [[(''minutes'', Null)]]
         else (case sum_integers 0 titles of
                 None \<Rightarrow> Inl ''integer overflow''
               | Some minutes \<Rightarrow> Inr [[(''minutes'', Integer minutes)]]))"

definition get_minutes_today :: "things3 \<Rightarrow> store \<Rightarrow> rng \<Rightarrow> (row list \<times> rng) outcome" where
  "get_minutes_today self st g = execute_query self st (get_minutes_today_query self) g"

text \<open>\<^verbatim>\<open>get_cleanup\<close>: three queries, one after the other, their rows appended.\<close>

definition get_cleanup :: "things3 \<Rightarrow> store \<Rightarrow> rng \<Rightarrow> (row list \<times> rng) outcome" where
  "get_cleanup self st g =
     and_then (get_lint self st g) (\<lambda>(lint, g1).
     and_then (get_empty_projects self st g1) (\<lambda>(empty_projects, g2).
     and_then (get_tag self (tag_cleanup self) st g2) (\<lambda>(tagged, g3).
     Return ([] @ lint @ empty_projects @ tagged, g3))))"

definition get_not_implemented :: "row list" where
  "get_not_implemented = [[(''title'', Text ''not implemented'')]]"

section \<open>The dispatcher\<close>

text \<open>The dictionary \<^verbatim>\<open>Things3.functions\<close>, from the name of a view to its method.\<close>

definition functions' :: "(string \<times> (things3 \<Rightarrow> store \<Rightarrow> rng \<Rightarrow> (row list \<times> rng) outcome)) list" where
  "functions' =
     [(''inbox'', get_inbox),
      (''today'', get_today),
      (''next'', get_anytime),
      (''backlog'', get_someday),
      (''upcoming'', get_upcoming),
      (''waiting'', get_waiting),
      (''mit'', get_mit),
      (''completed'', get_completed),
      (''cancelled'', get_cancelled),
      (''trashed'', get_trashed),
      (''projects'', get_projects),
      (''areas'', get_areas),
      (''all'', get_all),
      (''due'', get_due),
      (''lint'', get_lint),
      (''empty'', get_empty_projects),
      (''cleanup'', get_cleanup),
      (''top-proj'', get_largest_projects),
      (''stats-day'', get_daystats),
      (''stats-min-today'', get_minutes_today)]"

text \<open>
  \<^verbatim>\<open>Things3API.api(command)\<close>: the rows of the view as JSON with status 200 (the default of
  \<^verbatim>\<open>Response\<close>), or the rows of \<^verbatim>\<open>get_not_implemented\<close> as JSON with status 404. The body is
  given by the rows that \<^verbatim>\<open>json.dumps\<close> prints.
\<close>

definition api :: "things3 \<Rightarrow> store \<Rightarrow> string \<Rightarrow> rng \<Rightarrow> (row list response \<times> rng) outcome" where
  "api self st command g =
     (case map_of functions' command of
        Some func \<Rightarrow>
          and_then (func self st g) (\<lambda>(data, g').
          Return (\<lparr> response = Some data, content_type = Some ''application/json'',
                    rstatus = 200 \<rparr>, g'))
      | None \<Rightarrow>
          Return (\<lparr> response = Some get_not_implemented, content_type = Some ''application/json'',
                    rstatus = 404 \<rparr>, g))"

section \<open>Predicates of the properties\<close>

text \<open>
  The order the claim C7 words: the environment variable first, then the entry of the
  configuration file, then the constructor's argument.
\<close>

definition claimed_priority ::
  "config \<Rightarrow> environ \<Rightarrow> pyval option \<Rightarrow> string \<Rightarrow> pyval option" where
  "claimed_priority config environ variable preference =
     (if (case environ preference of None \<Rightarrow> False | Some e \<Rightarrow> e \<noteq> [])
        then map_option Str (environ preference)
      else (case config ''DATABASE'' of
              None \<Rightarrow> variable
            | Some section \<Rightarrow>
                (case section preference of None \<Rightarrow> variable | Some c \<Rightarrow> Some (Str c))))"

text \<open>
  \<^verbatim>\<open>scrambled v v'\<close>: \<^verbatim>\<open>v'\<close> is what the anonymizer may make of \<^verbatim>\<open>v\<close>: \<^verbatim>\<open>None\<close> of \<^verbatim>\<open>None\<close>, and
  of a string a string with the same characters, each as often.
\<close>

fun scrambled :: "sqlval \<Rightarrow> sqlval \<Rightarrow> bool" where
  "scrambled Null v' = (v' = Null)"
| "scrambled (Text s) v' = (case v' of Text s' \<Rightarrow> mset s' = mset s | _ \<Rightarrow> False)"
| "scrambled (Integer n) v' = False"

text \<open>The row has the column, holding a string or \<^verbatim>\<open>None\<close>.\<close>

definition has_text :: "row \<Rightarrow> string \<Rightarrow> bool" where
  "has_text task key =
     (case map_of task key of Some Null \<Rightarrow> True | Some (Text s) \<Rightarrow> True | _ \<Rightarrow> False)"

text \<open>
  \<^verbatim>\<open>anonymized_row task task'\<close>: the same columns in the same order, \<^verbatim>\<open>title\<close> and \<^verbatim>\<open>context\<close>
  scrambled, every other column as it was.
\<close>

definition anonymized_row :: "row \<Rightarrow> row \<Rightarrow> bool" where
  "anonymized_row task task' =
     (map fst task' = map fst task \<and>
      list_all (\<lambda>k. case (map_of task k, map_of task' k) of
                  (Some v, Some v') \<Rightarrow>
                     if k = ''title'' \<or> k = ''context'' then scrambled v v' else v' = v
                | _ \<Rightarrow> False) (map fst task))"

text \<open>What a call returned, the generator left aside; nothing when it did not return.\<close>

fun returned :: "('a \<times> rng) outcome \<Rightarrow> 'a option" where
  "returned (Return (x, g)) = Some x"
| "returned (Raise e) = None"
| "returned (SysExit n) = None"

text \<open>The exception a call raised, and the status it left the process with.\<close>

fun raised :: "'a outcome \<Rightarrow> exn option" where
  "raised (Raise e) = Some e"
| "raised (Return x) = None"
| "raised (SysExit n) = None"

fun exit_status :: "'a outcome \<Rightarrow> int option" where
  "exit_status (SysExit n) = Some n"
| "exit_status (Return x) = None"
| "exit_status (Raise e) = None"

text \<open>
  The containers of a task, looked up in the database: its area, its project, its heading, and
  the project of its heading (the head project).
\<close>

definition area_of :: "db \<Rightarrow> task_row \<Rightarrow> area_row option" where
  "area_of d t = area_by_uuid d (area t)"

definition project_of :: "db \<Rightarrow> task_row \<Rightarrow> task_row option" where
  "project_of d t = task_by_uuid d (project t)"

definition heading_of :: "db \<Rightarrow> task_row \<Rightarrow> task_row option" where
  "heading_of d t = task_by_uuid d (actionGroup t)"

definition head_project_of :: "db \<Rightarrow> task_row \<Rightarrow> task_row option" where
  "head_project_of d t = task_by_uuid d (Option.bind (heading_of d t) project)"

text \<open>The task is in the scope of the filter.\<close>

fun in_scope :: "scope_filter \<Rightarrow> db \<Rightarrow> task_row \<Rightarrow> bool" where
  "in_scope NoFilter d t = True"
| "in_scope (AreaFilter ident) d t = (area t = Some ident)"
| "in_scope (ProjectFilter ident) d t =
     (project t = Some ident \<or> Option.bind (heading_of d t) project = Some ident)"

text \<open>
  The texts that the views paste from the state of the object are plain: the id of the scope
  filter and the three tag names.
\<close>

definition plain_state :: "things3 \<Rightarrow> bool" where
  "plain_state self =
     (filter_plain (filter' self) \<and> plain (py_str (tag_waiting self)) \<and>
      plain (py_str (tag_mit self)) \<and> plain (py_str (tag_cleanup self)))"

text \<open>An ordering gives back the rows it is given, each as often.\<close>

definition permutes :: "('a list \<Rightarrow> 'a list) \<Rightarrow> bool" where
  "permutes order_by = (\<forall>xs. mset (order_by xs) = mset xs)"

text \<open>The value of a column in each of the rows.\<close>

definition column :: "string \<Rightarrow> row list \<Rightarrow> sqlval option list" where
  "column key rows = map (\<lambda>r. map_of r key) rows"

text \<open>The views that select their rows through \<^verbatim>\<open>get_rows\<close>.\<close>

definition get_rows_views :: "(things3 \<Rightarrow> store \<Rightarrow> rng \<Rightarrow> (row list \<times> rng) outcome) list" where
  "get_rows_views =
     [get_inbox, get_today, get_anytime, get_someday, get_upcoming, get_waiting, get_mit,
      get_completed, get_cancelled, get_trashed, get_all, get_due, get_lint, get_empty_projects,
      get_cleanup]"

text \<open>
  \<^verbatim>\<open>context_resolved d t r\<close>: the row \<^verbatim>\<open>r\<close> is that of task \<^verbatim>\<open>t\<close>, its \<^verbatim>\<open>context\<close> is the first
  title there is among those of the task's area, project and heading, and its
  \<^verbatim>\<open>context_uuid\<close> is the id of the area when the area is found, else the id of the project
  when the project is found, else \<^verbatim>\<open>NULL\<close>.
\<close>

definition context_resolved :: "db \<Rightarrow> task_row \<Rightarrow> row \<Rightarrow> bool" where
  "context_resolved d t r =
     (map_of r ''uuid'' = Some (Text (uuid t)) \<and>
      map_of r ''context'' = Some
        (case Option.bind (area_of d t) area_title of
           Some s \<Rightarrow> Text s
         | None \<Rightarrow>
             (case Option.bind (project_of d t) title of
                Some s \<Rightarrow> Text s
              | None \<Rightarrow>
                  (case Option.bind (heading_of d t) title of
                     Some s \<Rightarrow> Text s
                   | None \<Rightarrow> Null))) \<and>
      map_of r ''context_uuid'' = Some
        (case area_of d t of
           Some a \<Rightarrow> Text (area_uuid a)
         | None \<Rightarrow>
             (case project_of d t of
                Some p \<Rightarrow> Text (uuid p)
              | None \<Rightarrow> Null)))"

text \<open>
  The context id as the claim C2 words it: the area's id, else the project's id, else the id
  of the heading's own project, else absent.
\<close>

definition claimed_context_uuid :: "db \<Rightarrow> task_row \<Rightarrow> sqlval" where
  "claimed_context_uuid d t =
     (case area_of d t of
        Some a \<Rightarrow> Text (area_uuid a)
      | None \<Rightarrow>
          (case project_of d t of
             Some p \<Rightarrow> Text (uuid p)
           | None \<Rightarrow>
               (case head_project_of d t of
                  Some hp \<Rightarrow> Text (uuid hp)
                | None \<Rightarrow> Null)))"

text \<open>
  The number of rows of the kind of the mode that satisfy a condition and whose date column
  falls on the calendar day of the second \<^verbatim>\<open>s\<close>.
\<close>

definition tasks_on_day ::
  "things3 \<Rightarrow> db \<Rightarrow> (task_row \<Rightarrow> bool) \<Rightarrow> (task_row \<Rightarrow> int option) \<Rightarrow> int \<Rightarrow> nat" where
  "tasks_on_day self d cond date_column s =
     length (filter (\<lambda>t. type t = IS_TASK self \<and> cond t \<and>
                         date_unixepoch (date_column t) \<noteq> Null \<and>
                         date_unixepoch (date_column t) = date_unixepoch (Some s)) (TMTask d))"

text \<open>
  The row of the day-stats view for the calendar day of the second \<^verbatim>\<open>s\<close>: the date, and the
  counts of the rows created, completed, cancelled and trashed on that day, each \<^verbatim>\<open>NULL\<close> when
  there is no such row.
\<close>

definition daystats_row :: "things3 \<Rightarrow> db \<Rightarrow> int \<Rightarrow> row" where
  "daystats_row self d s =
     [(''date'', date_unixepoch (Some s)),
      (''created'', left_join_count (tasks_on_day self d (\<lambda>t. True) creationDate s)),
      (''completed'', left_join_count (tasks_on_day self d (\<lambda>t. status t = 3) stopDate s)),
      (''cancelled'', left_join_count (tasks_on_day self d (\<lambda>t. status t = 2) stopDate s)),
      (''trashed'', left_join_count (tasks_on_day self d (\<lambda>t. trashed t = 1) userModificationDate s))]"

section \<open>Example inputs\<close>

text \<open>
  An empty database, and a generator whose \<^verbatim>\<open>k\<close>-th number is \<^verbatim>\<open>7 * k + 3\<close>. The example
  databases give \<^verbatim>\<open>injected\<close> the syntax error that SQLite answers to a text with one quote
  character pasted; the examples paste no other text that is not plain.
\<close>

definition db0 :: db where
  "db0 = \<lparr> TMTask = [], TMArea = [], TMTag = [], TMTaskTag = [], now = 0,
           injected = (\<lambda>self label pasted. Inr (Inl ''syntax error'')) \<rparr>"

definition g0 :: rng where
  "g0 = (\<lambda>k. 7 * k + 3)"

text \<open>
  A database for the examples, on 2025-11-03. Area \<^verbatim>\<open>A1\<close>; project \<^verbatim>\<open>P1\<close> in the area, and the
  trashed someday project \<^verbatim>\<open>P3\<close> without title; heading \<^verbatim>\<open>H1\<close> of \<^verbatim>\<open>P1\<close>; the tasks \<^verbatim>\<open>T1\<close> in
  \<^verbatim>\<open>P1\<close> (tagged \<^verbatim>\<open>G1\<close>), \<^verbatim>\<open>T3\<close> in \<^verbatim>\<open>P3\<close> and \<^verbatim>\<open>T5\<close> under \<^verbatim>\<open>H1\<close>; and \<^verbatim>\<open>X1\<close>, a row of kind
  project whose parent project is \<^verbatim>\<open>P1\<close>.
\<close>

definition task0 :: task_row where
  "task0 =
     \<lparr> uuid = [], title = None, type = 0, status = 0, trashed = 0, start = 1,
       creationDate = None, userModificationDate = None, dueDate = None, startDate = None,
       stopDate = None, project = None, area = None, actionGroup = None, todayIndex = 0,
       recurrenceRule = None, instanceCreationPaused = 0, nextInstanceStartDate = None \<rparr>"

definition db1 :: db where
  "db1 =
     \<lparr> TMTask =
         [task0\<lparr>uuid := ''P1'', title := Some ''Proj1'', type := 1, area := Some ''A1''\<rparr>,
          task0\<lparr>uuid := ''P3'', type := 1, trashed := 1, start := 2\<rparr>,
          task0\<lparr>uuid := ''H1'', title := Some ''Head1'', type := 2, project := Some ''P1''\<rparr>,
          task0\<lparr>uuid := ''T1'', title := Some ''Task1'', project := Some ''P1'',
                 creationDate := Some 1762000000\<rparr>,
          task0\<lparr>uuid := ''T3'', title := Some ''Task3'', project := Some ''P3''\<rparr>,
          task0\<lparr>uuid := ''T5'', title := Some ''Task5'', actionGroup := Some ''H1''\<rparr>,
          task0\<lparr>uuid := ''X1'', title := Some ''Sub'', type := 1, project := Some ''P1''\<rparr>],
       TMArea = [\<lparr> area_uuid = ''A1'', area_title = Some ''Home'' \<rparr>],
       TMTag = [\<lparr> tag_uuid = ''G1'', tag_title = Some ''Waiting'' \<rparr>],
       TMTaskTag = [\<lparr> tasks = ''T1'', tags = ''G1'' \<rparr>],
       now = 1762128000,
       injected = (\<lambda>self label pasted. Inr (Inl ''syntax error'')) \<rparr>"

text \<open>
  A database of containers that differ in one column each, all with a title: the projects
  \<^verbatim>\<open>P1\<close> (anytime, not scheduled, not trashed), \<^verbatim>\<open>P2\<close> (someday), \<^verbatim>\<open>P4\<close> (trashed) and \<^verbatim>\<open>P5\<close>
  (scheduled); the headings \<^verbatim>\<open>H2\<close> of \<^verbatim>\<open>P2\<close> and \<^verbatim>\<open>H4\<close> of \<^verbatim>\<open>P4\<close>; the open anytime tasks \<^verbatim>\<open>T1\<close>,
  \<^verbatim>\<open>T2\<close>, \<^verbatim>\<open>T4\<close>, \<^verbatim>\<open>T5\<close> in the projects of their number, \<^verbatim>\<open>T6\<close> under \<^verbatim>\<open>H2\<close> and \<^verbatim>\<open>T8\<close> under
  \<^verbatim>\<open>H4\<close>.
\<close>

definition db2 :: db where
  "db2 =
     \<lparr> TMTask =
         [task0\<lparr>uuid := ''P1'', title := Some ''Proj1'', type := 1\<rparr>,
          task0\<lparr>uuid := ''P2'', title := Some ''Proj2'', type := 1, start := 2\<rparr>,
          task0\<lparr>uuid := ''P4'', title := Some ''Proj4'', type := 1, trashed := 1\<rparr>,
          task0\<lparr>uuid := ''P5'', title := Some ''Proj5'', type := 1, startDate := Some 1762128000\<rparr>,
          task0\<lparr>uuid := ''H2'', title := Some ''Head2'', type := 2, project := Some ''P2''\<rparr>,
          task0\<lparr>uuid := ''H4'', title := Some ''Head4'', type := 2, project := Some ''P4''\<rparr>,
          task0\<lparr>uuid := ''T1'', title := Some ''Task1'', project := Some ''P1''\<rparr>,
          task0\<lparr>uuid := ''T2'', title := Some ''Task2'', project := Some ''P2''\<rparr>,
          task0\<lparr>uuid := ''T4'', title := Some ''Task4'', project := Some ''P4''\<rparr>,
          task0\<lparr>uuid := ''T5'', title := Some ''Task5'', project := Some ''P5''\<rparr>,
          task0\<lparr>uuid := ''T6'', title := Some ''Task6'', actionGroup := Some ''H2''\<rparr>,
          task0\<lparr>uuid := ''T8'', title := Some ''Task8'', actionGroup := Some ''H4''\<rparr>],
       TMArea = [], TMTag = [], TMTaskTag = [],
       now = 1762128000,
       injected = (\<lambda>self label pasted. Inr (Inl ''syntax error'')) \<rparr>"

text \<open>The object that \<^verbatim>\<open>Things3()\<close> builds for user \<^verbatim>\<open>u\<close> without configuration.\<close>

definition self0 :: things3 where
  "self0 = init Map.empty Map.empty ''u'' None None None None None"

section \<open>Configuration priority\<close>

lemma get_from_config_argument:
  "get_from_config config environ (Some v) preference = Some v"
  by (simp add: get_from_config_def)

lemma get_from_config_environ:
  "environ preference = Some e \<Longrightarrow> e \<noteq> [] \<Longrightarrow>
   get_from_config config environ None preference = Some (Str e)"
  by (simp add: get_from_config_def)

lemma get_from_config_file:
  "(case environ preference of None \<Rightarrow> True | Some e \<Rightarrow> e = []) \<Longrightarrow>
   get_from_config config environ None preference =
     (case config ''DATABASE'' of None \<Rightarrow> None | Some section \<Rightarrow> map_option Str (section preference))"
  by (auto simp: get_from_config_def split: option.splits)


text \<open>
  C7, as the claim states it, fails: with \<^verbatim>\<open>TAG_WAITING=E\<close> in the environment and the
  constructor called with \<^verbatim>\<open>tag_waiting='A'\<close>, the claimed order gives \<^verbatim>\<open>E\<close> and the object
  holds \<^verbatim>\<open>A\<close>.
\<close>

theorem config_priority_counterexample:
  "tag_waiting (init Map.empty [''TAG_WAITING'' \<mapsto> ''E''] ''u''
       None (Some (Str ''A'')) None None None) = Str ''A'' \<and>
   or_default (claimed_priority Map.empty [''TAG_WAITING'' \<mapsto> ''E''] (Some (Str ''A''))
       ''TAG_WAITING'') (Str ''Waiting'') = Str ''E''"
  by (simp add: init_def class_attributes_def get_from_config_def claimed_priority_def
      or_default_def Let_def)

text \<open>
  C7 (amended): each of the five configuration keys (the store location \<^verbatim>\<open>THINGSDB\<close>, the tag
  names \<^verbatim>\<open>TAG_WAITING\<close>, \<^verbatim>\<open>TAG_MIT\<close>, \<^verbatim>\<open>TAG_CLEANUP\<close>, and \<^verbatim>\<open>ANONYMIZE\<close>) takes the value that
  \<^verbatim>\<open>get_from_config\<close> picks, and the class default when that value is absent or falsy.
  \<^verbatim>\<open>get_from_config\<close> picks the constructor's argument when it is given, else the environment
  variable when it is set and not empty, else the entry of section \<^verbatim>\<open>DATABASE\<close> of the
  configuration file.
\<close>

theorem config_priority:
  "(let self = init config environ user db tw tm tc an in
      database self = or_default (get_from_config config environ db ''THINGSDB'')
                        (Str (''/Users/'' @ user @ ''/'' @ FILE_DB)) \<and>
      tag_waiting self = or_default (get_from_config config environ tw ''TAG_WAITING'') (Str ''Waiting'') \<and>
      tag_mit self = or_default (get_from_config config environ tm ''TAG_MIT'') (Str ''MIT'') \<and>
      tag_cleanup self = or_default (get_from_config config environ tc ''TAG_CLEANUP'') (Str ''Cleanup'') \<and>
      anonymize self = or_default (get_from_config config environ an ''ANONYMIZE'') (Bool False)) \<and>
   (\<forall>v. variable = Some v \<longrightarrow> get_from_config config environ variable preference = Some v) \<and>
   (\<forall>e. variable = None \<and> environ preference = Some e \<and> e \<noteq> [] \<longrightarrow>
        get_from_config config environ variable preference = Some (Str e)) \<and>
   (variable = None \<and> (environ preference = None \<or> environ preference = Some []) \<longrightarrow>
        get_from_config config environ variable preference =
          (case config ''DATABASE'' of None \<Rightarrow> None
           | Some section \<Rightarrow> map_option Str (section preference)))"
proof -
  have fields: "(let self = init config environ user db tw tm tc an in
      database self = or_default (get_from_config config environ db ''THINGSDB'')
                        (Str (''/Users/'' @ user @ ''/'' @ FILE_DB)) \<and>
      tag_waiting self = or_default (get_from_config config environ tw ''TAG_WAITING'') (Str ''Waiting'') \<and>
      tag_mit self = or_default (get_from_config config environ tm ''TAG_MIT'') (Str ''MIT'') \<and>
      tag_cleanup self = or_default (get_from_config config environ tc ''TAG_CLEANUP'') (Str ''Cleanup'') \<and>
      anonymize self = or_default (get_from_config config environ an ''ANONYMIZE'') (Bool False))"
    by (simp add: init_def class_attributes_def Let_def)
  have arg: "\<forall>v. variable = Some v \<longrightarrow>
      get_from_config config environ variable preference = Some v"
    by (simp add: get_from_config_argument)
  have env: "\<forall>e. variable = None \<and> environ preference = Some e \<and> e \<noteq> [] \<longrightarrow>
      get_from_config config environ variable preference = Some (Str e)"
    by (simp add: get_from_config_environ)
  have cfgfile: "variable = None \<and> (environ preference = None \<or> environ preference = Some []) \<longrightarrow>
      get_from_config config environ variable preference =
        (case config ''DATABASE'' of None \<Rightarrow> None
         | Some section \<Rightarrow> map_option Str (section preference))"
    by (auto simp: get_from_config_file)
  from fields arg env cfgfile show ?thesis by blast
qed

theorem config_priority_witness:
  "tag_waiting (init [''DATABASE'' \<mapsto> [''TAG_MIT'' \<mapsto> ''C'', ''TAG_WAITING'' \<mapsto> ''D'']]
       [''TAG_WAITING'' \<mapsto> ''E'', ''TAG_MIT'' \<mapsto> []] ''u''
       (Some (Str [])) None None (Some (Str ''A'')) None) = Str ''E'' \<and>
   tag_mit (init [''DATABASE'' \<mapsto> [''TAG_MIT'' \<mapsto> ''C'', ''TAG_WAITING'' \<mapsto> ''D'']]
       [''TAG_WAITING'' \<mapsto> ''E'', ''TAG_MIT'' \<mapsto> []] ''u''
       (Some (Str [])) None None (Some (Str ''A'')) None) = Str ''C'' \<and>
   tag_cleanup (init [''DATABASE'' \<mapsto> [''TAG_MIT'' \<mapsto> ''C'', ''TAG_WAITING'' \<mapsto> ''D'']]
       [''TAG_WAITING'' \<mapsto> ''E'', ''TAG_MIT'' \<mapsto> []] ''u''
       (Some (Str [])) None None (Some (Str ''A'')) None) = Str ''A'' \<and>
   database (init [''DATABASE'' \<mapsto> [''TAG_MIT'' \<mapsto> ''C'', ''TAG_WAITING'' \<mapsto> ''D'']]
       [''TAG_WAITING'' \<mapsto> ''E'', ''TAG_MIT'' \<mapsto> []] ''u''
       (Some (Str [])) None None (Some (Str ''A'')) None) = Str (''/Users/u/'' @ FILE_DB) \<and>
   get_from_config [''DATABASE'' \<mapsto> [''TAG_MIT'' \<mapsto> ''C'']] [''TAG_MIT'' \<mapsto> ''E'']
       (Some (Str ''A'')) ''TAG_MIT'' = Some (Str ''A'') \<and>
   get_from_config [''DATABASE'' \<mapsto> [''TAG_MIT'' \<mapsto> ''C'']] [''TAG_MIT'' \<mapsto> ''E'']
       None ''TAG_MIT'' = Some (Str ''E'') \<and>
   get_from_config [''DATABASE'' \<mapsto> [''TAG_MIT'' \<mapsto> ''C'']] [''TAG_MIT'' \<mapsto> []]
       None ''TAG_MIT'' = Some (Str ''C'')"
  using
    config_priority [of "[''DATABASE'' \<mapsto> [''TAG_MIT'' \<mapsto> ''C'', ''TAG_WAITING'' \<mapsto> ''D'']]"
      "[''TAG_WAITING'' \<mapsto> ''E'', ''TAG_MIT'' \<mapsto> []]" "''u''"
      "Some (Str [])" None None "Some (Str ''A'')" None None "''TAG_MIT''"]
    config_priority [of "[''DATABASE'' \<mapsto> [''TAG_MIT'' \<mapsto> ''C'']]" "[''TAG_MIT'' \<mapsto> ''E'']"
      "''u''" None None None None None "Some (Str ''A'')" "''TAG_MIT''"]
    config_priority [of "[''DATABASE'' \<mapsto> [''TAG_MIT'' \<mapsto> ''C'']]" "[''TAG_MIT'' \<mapsto> ''E'']"
      "''u''" None None None None None None "''TAG_MIT''"]
    config_priority [of "[''DATABASE'' \<mapsto> [''TAG_MIT'' \<mapsto> ''C'']]" "[''TAG_MIT'' \<mapsto> []]"
      "''u''" None None None None None None "''TAG_MIT''"]
  by (simp add: Let_def get_from_config_def or_default_def)

section \<open>The scope filter's setter\<close>

text \<open>
  C10: a call of \<^verbatim>\<open>api_filter\<close> with an empty id, or with a mode that is neither \<^verbatim>\<open>area\<close>
  nor \<^verbatim>\<open>project\<close>, answers 200 and leaves the whole engine state, the stored filter with it,
  as it was; a call with a non-empty id and mode \<^verbatim>\<open>area\<close> or \<^verbatim>\<open>project\<close> stores the filter of
  that mode and id, changes nothing else, and answers 200.
\<close>

theorem api_filter_frame:
  "(ident = [] \<or> (mode \<noteq> ''area'' \<and> mode \<noteq> ''project'') \<longrightarrow>
      (api_filter self mode ident :: things3 \<times> 'a response) = (self, Response_200)) \<and>
   (ident \<noteq> [] \<longrightarrow>
      (api_filter self ''area'' ident :: things3 \<times> 'a response) =
        (self\<lparr>filter' := AreaFilter ident\<rparr>, Response_200) \<and>
      (api_filter self ''project'' ident :: things3 \<times> 'a response) =
        (self\<lparr>filter' := ProjectFilter ident\<rparr>, Response_200))"
  by (auto simp: api_filter_def Let_def)

theorem api_filter_frame_witness:
  "fst (api_filter (class_attributes ''u'' \<lparr>filter' := AreaFilter ''A1''\<rparr>) ''project'' [] ::
          things3 \<times> unit response)
     = class_attributes ''u'' \<lparr>filter' := AreaFilter ''A1''\<rparr> \<and>
   fst (api_filter (class_attributes ''u'' \<lparr>filter' := AreaFilter ''A1''\<rparr>) ''heading'' ''H1'' ::
          things3 \<times> unit response)
     = class_attributes ''u'' \<lparr>filter' := AreaFilter ''A1''\<rparr> \<and>
   filter' (fst (api_filter (class_attributes ''u'' \<lparr>filter' := AreaFilter ''A1''\<rparr>) ''project'' ''P1'' ::
          things3 \<times> unit response))
     = ProjectFilter ''P1''"
  using
    api_filter_frame [where ?'a = unit, of "[]" "''project''" "class_attributes ''u'' \<lparr>filter' := AreaFilter ''A1''\<rparr>"]
    api_filter_frame [where ?'a = unit, of "''H1''" "''heading''" "class_attributes ''u'' \<lparr>filter' := AreaFilter ''A1''\<rparr>"]
    api_filter_frame [where ?'a = unit, of "''P1''" "''area''" "class_attributes ''u'' \<lparr>filter' := AreaFilter ''A1''\<rparr>"]
  by simp

section \<open>The mode toggle\<close>

text \<open>
  C6: \<^verbatim>\<open>api_toggle\<close>, in every engine state, raises \<^verbatim>\<open>AttributeError\<close> for \<^verbatim>\<open>toggle_mode\<close> and
  leaves the state as it was: the mode is never switched, neither by one call nor by two.
\<close>

theorem api_toggle_raises:
  "(api_toggle self :: things3 \<times> 'a response outcome) =
     (self, Raise (AttributeError ''toggle_mode''))"
  by (simp add: api_toggle_def Things3_procedures_def)

text \<open>The two mode methods themselves: from the task mode, the one undoes the other.\<close>

lemma mode_task_mode_project:
  "IS_TASK self = MODE_TASK \<Longrightarrow> mode_task (mode_project self) = self"
  by (simp add: mode_task_def mode_project_def)

section \<open>The anonymizer keeps the characters\<close>

lemma mset_shuffle_from:
  "i < length x \<Longrightarrow> mset (fst (shuffle_from i x g)) = mset x"
proof (induction i arbitrary: x g)
  case 0
  then show ?case by simp
next
  case (Suc i)
  let ?j = "g 0 mod (Suc i + 1)"
  let ?x = "x[Suc i := x ! ?j, ?j := x ! Suc i]"
  have j: "?j < length x" using Suc.prems by (simp add: less_le_trans [OF mod_less_divisor])
  have "mset ?x = mset x" using Suc.prems j by (simp add: mset_swap)
  moreover have "mset (fst (shuffle_from i ?x (\<lambda>k. g (Suc k)))) = mset ?x"
    using Suc.prems by (intro Suc.IH) simp
  ultimately show ?case by (simp add: randbelow_def Let_def)
qed

lemma mset_shuffle: "mset (fst (shuffle x g)) = mset x"
  by (cases x) (simp_all add: shuffle_def mset_shuffle_from)

lemma map_of_setitem: "map_of (setitem key v task) k = (if k = key then Some v else map_of task k)"
  by (induction task) auto

lemma map_fst_setitem: "map_of task key \<noteq> None \<Longrightarrow> map fst (setitem key v task) = map fst task"
  by (induction task) (auto split: if_splits)


lemma anonymize_string_ok:
  "v = Null \<or> (\<exists>s. v = Text s) \<Longrightarrow>
   \<exists>v' g'. anonymize_string v g = Return (v', g') \<and> scrambled v v'"
proof (cases v)
  case (Text s)
  have "mset (fst (shuffle s g)) = mset s" by (rule mset_shuffle)
  with Text show ?thesis by (cases "shuffle s g") simp
qed auto

lemma has_text_cases:
  "has_text task key \<Longrightarrow> \<exists>v. map_of task key = Some v \<and> (v = Null \<or> (\<exists>s. v = Text s))"
  by (auto simp: has_text_def split: option.splits sqlval.splits)

lemma anonymize_task_ok:
  assumes "has_text task ''title''" and "has_text task ''context''"
  shows "\<exists>task' g'. anonymize_task task g = Return (task', g') \<and> anonymized_row task task'"
proof -
  from has_text_cases [OF assms(1)] obtain v1
    where v1: "map_of task ''title'' = Some v1" "v1 = Null \<or> (\<exists>s. v1 = Text s)" by blast
  from has_text_cases [OF assms(2)] obtain v2
    where v2: "map_of task ''context'' = Some v2" "v2 = Null \<or> (\<exists>s. v2 = Text s)" by blast
  from anonymize_string_ok [OF v1(2)] obtain v1' g1
    where a1: "anonymize_string v1 g = Return (v1', g1)" "scrambled v1 v1'" by blast
  from anonymize_string_ok [OF v2(2)] obtain v2' g2
    where a2: "anonymize_string v2 g1 = Return (v2', g2)" "scrambled v2 v2'" by blast
  let ?task1 = "setitem ''title'' v1' task"
  let ?task' = "setitem ''context'' v2' ?task1"
  have run: "anonymize_task task g = Return (?task', g2)"
    using v1 v2 a1 a2 by (simp add: anonymize_task_def getitem_def map_of_setitem)
  have keys: "map fst ?task' = map fst task"
    using v1 v2 by (simp add: map_fst_setitem map_of_setitem)
  have vals: "list_all (\<lambda>k. case (map_of task k, map_of ?task' k) of
                  (Some v, Some v') \<Rightarrow> if k = ''title'' \<or> k = ''context'' then scrambled v v' else v' = v
                | _ \<Rightarrow> False) (map fst task)"
    unfolding list_all_iff
  proof
    fix k assume "k \<in> set (map fst task)"
    then obtain v where "map_of task k = Some v"
      by (metis map_of_eq_None_iff not_None_eq set_map)
    then show "case (map_of task k, map_of ?task' k) of
                  (Some v, Some v') \<Rightarrow> if k = ''title'' \<or> k = ''context'' then scrambled v v' else v' = v
                | _ \<Rightarrow> False"
      using v1 v2 a1 a2 by (auto simp: map_of_setitem)
  qed
  from run keys vals show ?thesis by (auto simp: anonymized_row_def)
qed

lemma anonymize_loop_ok:
  "\<forall>task \<in> set rs. has_text task ''title'' \<and> has_text task ''context'' \<Longrightarrow>
   \<exists>rs' g'. anonymize_loop rs g = Return (rs', g') \<and> list_all2 anonymized_row rs rs'"
proof (induction rs arbitrary: g)
  case Nil
  then show ?case by simp
next
  case (Cons task rs)
  from Cons.prems anonymize_task_ok [of task g] obtain task' g1
    where t: "anonymize_task task g = Return (task', g1)" "anonymized_row task task'" by auto
  from Cons.prems Cons.IH [of g1] obtain rs' g2
    where ts: "anonymize_loop rs g1 = Return (rs', g2)" "list_all2 anonymized_row rs rs'"
    by auto
  from t ts show ?case by simp
qed

section \<open>The store adapter on an unavailable store\<close>

text \<open>
  C1, as the claim states it, fails: on a store that cannot be opened, \<^verbatim>\<open>execute_query\<close> itself
  leaves the process with status 2; it hands no failure value to its caller.
\<close>

theorem execute_query_exits_counterexample:
  "exit_status (execute_query (class_attributes ''u'')
      (Unavailable ''unable to open database file'') (\<lambda>d. Inr []) g0) = Some 2 \<and>
   returned (execute_query (class_attributes ''u'')
      (Unavailable ''unable to open database file'') (\<lambda>d. Inr []) g0) = None \<and>
   raised (execute_query (class_attributes ''u'')
      (Unavailable ''unable to open database file'') (\<lambda>d. Inr []) g0) = None"
  by (simp add: execute_query_def)

lemma exit_status_and_then:
  "exit_status m = None \<Longrightarrow> (\<And>x. exit_status (f x) = None) \<Longrightarrow> exit_status (and_then m f) = None"
  by (cases m) auto

lemma exit_status_getitem: "exit_status (getitem task key) = None"
  by (simp add: getitem_def split: option.splits)

lemma exit_status_anonymize_string: "exit_status (anonymize_string v g) = None"
  by (cases v) (auto split: prod.splits)

lemma exit_status_anonymize_task: "exit_status (anonymize_task task g) = None"
  unfolding anonymize_task_def
  by (intro exit_status_and_then exit_status_getitem exit_status_anonymize_string)
     (auto simp: Let_def intro!: exit_status_and_then exit_status_getitem exit_status_anonymize_string)

lemma exit_status_anonymize_loop: "exit_status (anonymize_loop rs g) = None"
proof (induction rs arbitrary: g)
  case Nil
  show ?case by simp
next
  case (Cons task rs)
  show ?case
    by (auto intro!: exit_status_and_then exit_status_anonymize_task Cons.IH)
qed

lemma views_exit:
  "(name, func) \<in> set functions' \<Longrightarrow> func self (Unavailable error) g = SysExit 2"
  by (auto simp: functions'_def get_inbox_def get_today_def get_anytime_def get_someday_def
      get_upcoming_def get_waiting_def get_mit_def get_tag_def get_completed_def get_cancelled_def
      get_trashed_def get_projects_def get_areas_def get_all_def get_due_def get_lint_def
      get_empty_projects_def get_cleanup_def get_largest_projects_def get_daystats_def
      get_minutes_today_def get_rows_def execute_query_def)

lemma api_exit:
  assumes "(name, func) \<in> set functions'"
  shows "api self (Unavailable error) name g = SysExit 2"
proof -
  from assms have "map_of functions' name \<noteq> None"
    by (metis fst_conv image_eqI map_of_eq_None_iff)
  then obtain f where f: "map_of functions' name = Some f" by blast
  then have "(name, f) \<in> set functions'" by (rule map_of_SomeD)
  from views_exit [OF this] f show ?thesis by (simp add: api_def)
qed

text \<open>
  C1 (amended): when the store cannot be opened, or the query cannot be run on it
  (\<^verbatim>\<open>sqlite3.OperationalError\<close>), \<^verbatim>\<open>execute_query\<close>, in every engine state and for every query,
  ends the process itself with \<^verbatim>\<open>sys.exit(2)\<close>: it neither returns nor raises a failure to its
  caller. When the query gives its rows the method never exits. So every view of
  \<^verbatim>\<open>functions\<close>, and the dispatcher on the name of every view, ends on an unavailable store
  with the exit that the adapter made.
\<close>

theorem execute_query_exits:
  "execute_query self (Unavailable error) sql g = SysExit 2 \<and>
   (sql d = Inl error \<longrightarrow> execute_query self (Available d) sql g = SysExit 2) \<and>
   (sql d = Inr rows \<longrightarrow> exit_status (execute_query self (Available d) sql g) = None) \<and>
   (\<forall>(name, func) \<in> set functions'.
       func self (Unavailable error) g = SysExit 2 \<and>
       api self (Unavailable error) name g = SysExit 2)"
  using views_exit [of _ _ self error g] api_exit [of _ _ self error g]
  by (auto simp: execute_query_def anonymize_tasks_def exit_status_anonymize_loop)

theorem execute_query_exits_witness:
  "execute_query (class_attributes ''u'') (Unavailable ''unable to open database file'')
      (\<lambda>d. Inr []) g0 = SysExit 2 \<and>
   execute_query (class_attributes ''u'') (Available db0) (\<lambda>d. Inl ''integer overflow'') g0 = SysExit 2 \<and>
   exit_status (execute_query (class_attributes ''u'' \<lparr>anonymize := Str ''yes''\<rparr>) (Available db0)
      (\<lambda>d. Inr [[(''uuid'', Text ''A1''), (''title'', Text ''abcdef'')]]) g0) = None \<and>
   get_daystats self0 (Unavailable ''unable to open database file'') g0 = SysExit 2 \<and>
   api self0 (Unavailable ''unable to open database file'') ''stats-day'' g0 = SysExit 2"
proof -
  have m: "(''stats-day'', get_daystats) \<in> set functions'" by (simp add: functions'_def)
  from m
    execute_query_exits [of "class_attributes ''u''" "''unable to open database file''"
      "\<lambda>d. Inr []" g0 db0 "[]"]
    execute_query_exits [of "class_attributes ''u''" "''integer overflow''"
      "\<lambda>d. Inl ''integer overflow''" g0 db0 "[]"]
    execute_query_exits [of "class_attributes ''u'' \<lparr>anonymize := Str ''yes''\<rparr>" "''x''"
      "\<lambda>d. Inr [[(''uuid'', Text ''A1''), (''title'', Text ''abcdef'')]]" g0 db0
      "[[(''uuid'', Text ''A1''), (''title'', Text ''abcdef'')]]"]
    execute_query_exits [of self0 "''unable to open database file''" "\<lambda>d. Inr []" g0 db0 "[]"]
  show ?thesis by (simp (no_asm_use)) blast
qed

section \<open>The rows of \<^verbatim>\<open>get_rows\<close>\<close>

lemma permutes_sort_key: "permutes (sort_key k)"
  by (simp add: permutes_def)

lemma permutes_id: "permutes (\<lambda>js. js)"
  by (simp add: permutes_def)

lemma permutes_set: "permutes order_by \<Longrightarrow> set (order_by xs) = set xs"
  by (metis permutes_def set_mset_mset)

lemma tags_of_nonempty: "tags_of d t \<noteq> []"
  by (simp add: tags_of_def split: list.splits)

lemma set_joined_rows:
  "set (joined_rows d) = {join_task d t tg | t tg. t \<in> set (TMTask d) \<and> tg \<in> set (tags_of d t)}"
  by (auto simp: joined_rows_def)

lemma join_task_fields:
  "TASK (join_task d t tg) = t"
  "PROJECT (join_task d t tg) = project_of d t"
  "AREA (join_task d t tg) = area_of d t"
  "HEADING (join_task d t tg) = heading_of d t"
  "HEADPROJ (join_task d t tg) = head_project_of d t"
  "TAGS (join_task d t tg) = tg"
  by (simp_all add: join_task_def Let_def project_of_def area_of_def heading_of_def head_project_of_def)

lemma filter_cond_join: "filter_cond f (join_task d t tg) = in_scope f d t"
  by (cases f) (simp_all add: join_task_fields col_def)

lemma set_get_rows_query:
  assumes "permutes order_by"
  shows "\<exists>rs. get_rows_query self cond order_by d = Inr rs \<and>
     set rs = {select_row d (join_task d t tg) | t tg.
                 t \<in> set (TMTask d) \<and> tg \<in> set (tags_of d t) \<and>
                 in_scope (filter' self) d t \<and> cond d (join_task d t tg)}"
proof -
  have "set (filter (\<lambda>j. filter_cond (filter' self) j \<and> cond d j) (joined_rows d)) =
      {join_task d t tg | t tg. t \<in> set (TMTask d) \<and> tg \<in> set (tags_of d t) \<and>
          in_scope (filter' self) d t \<and> cond d (join_task d t tg)}"
    by (auto simp: set_joined_rows filter_cond_join) blast
  then show ?thesis
    using assms by (auto simp: get_rows_query_def permutes_set)
qed

lemma has_text_select_row:
  "has_text (select_row d j) ''title''" "has_text (select_row d j) ''context''"
  by (simp_all add: has_text_def select_row_def text_or_null_def split: option.splits)

lemma and_then_Return:
  "(and_then m f = Return y) = (\<exists>x. m = Return x \<and> f x = Return y)"
  by (cases m) auto

lemma anonymize_task_keeps:
  assumes "anonymize_task task g = Return (task', g')" and "k \<noteq> ''title''" and "k \<noteq> ''context''"
  shows "map_of task' k = map_of task k"
proof -
  from assms(1) obtain v1 v2 where "task' = setitem ''context'' v2 (setitem ''title'' v1 task)"
    by (auto simp: anonymize_task_def and_then_Return Let_def split: prod.splits)
  with assms(2,3) show ?thesis by (simp add: map_of_setitem)
qed

lemma anonymize_loop_keeps:
  "anonymize_loop rs g = Return (rs', g') \<Longrightarrow> k \<noteq> ''title'' \<Longrightarrow> k \<noteq> ''context'' \<Longrightarrow>
   column k rs' = column k rs"
proof (induction rs arbitrary: g rs' g')
  case Nil
  then show ?case by (simp add: column_def)
next
  case (Cons task rs)
  from Cons.prems(1) obtain task' g1 rs1 where
    t: "anonymize_task task g = Return (task', g1)" and
    l: "anonymize_loop rs g1 = Return (rs1, g')" and r: "rs' = task' # rs1"
    by (auto simp: and_then_Return split: prod.splits)
  from Cons.IH [OF l Cons.prems(2,3)] anonymize_task_keeps [OF t Cons.prems(2,3)] r
  show ?case by (simp add: column_def)
qed

lemma get_rows_plain:
  "filter_plain (filter' self) \<Longrightarrow> list_all plain pasted \<Longrightarrow>
   get_rows self st label pasted cond order_by g =
     execute_query self st (get_rows_query self cond order_by) g"
  by (simp add: get_rows_def)

lemma get_rows_returns:
  assumes "get_rows_query self cond order_by d = Inr rs"
    and "filter_plain (filter' self)" and "list_all plain pasted"
  shows "\<exists>rows g'. get_rows self (Available d) label pasted cond order_by g = Return (rows, g') \<and>
      (\<not> truthy (anonymize self) \<longrightarrow> rows = rs) \<and> column ''uuid'' rows = column ''uuid'' rs"
proof (cases "truthy (anonymize self)")
  case False
  with assms show ?thesis by (simp add: get_rows_plain execute_query_def anonymize_tasks_def)
next
  case True
  have "\<forall>task \<in> set rs. has_text task ''title'' \<and> has_text task ''context''"
    using assms by (auto simp: get_rows_query_def has_text_select_row)
  from anonymize_loop_ok [OF this, of g] obtain rows g'
    where a: "anonymize_loop rs g = Return (rows, g')" by blast
  from anonymize_loop_keeps [OF a, of "''uuid''"] have "column ''uuid'' rows = column ''uuid'' rs"
    by simp
  with a True assms show ?thesis by (simp add: get_rows_plain execute_query_def anonymize_tasks_def)
qed

lemma map_of_select_row_uuid: "map_of (select_row d j) ''uuid'' = Some (Text (uuid (TASK j)))"
  by (simp add: select_row_def)

lemma get_rows_uuids:
  assumes "permutes order_by" and "\<And>t tg. cond d (join_task d t tg) = P t"
    and "filter_plain (filter' self)" and "list_all plain pasted"
  shows "\<exists>rows g'. get_rows self (Available d) label pasted cond order_by g = Return (rows, g') \<and>
     set (column ''uuid'' rows) =
       (\<lambda>t. Some (Text (uuid t))) ` {t \<in> set (TMTask d). in_scope (filter' self) d t \<and> P t}"
proof -
  from set_get_rows_query [OF assms(1), of self cond d] obtain rs where
    q: "get_rows_query self cond order_by d = Inr rs" and
    s: "set rs = {select_row d (join_task d t tg) | t tg.
                 t \<in> set (TMTask d) \<and> tg \<in> set (tags_of d t) \<and>
                 in_scope (filter' self) d t \<and> cond d (join_task d t tg)}" by blast
  from get_rows_returns [OF q assms(3,4), of label g] obtain rows g' where
    r: "get_rows self (Available d) label pasted cond order_by g = Return (rows, g')" and
    c: "column ''uuid'' rows = column ''uuid'' rs" by blast
  have "set (column ''uuid'' rs) =
       (\<lambda>t. Some (Text (uuid t))) ` {t \<in> set (TMTask d). in_scope (filter' self) d t \<and> P t}"
  proof (intro set_eqI iffI)
    fix v assume "v \<in> set (column ''uuid'' rs)"
    then obtain x where "x \<in> set rs" "v = map_of x ''uuid''" by (auto simp: column_def)
    with s assms(2) show "v \<in> (\<lambda>t. Some (Text (uuid t))) `
        {t \<in> set (TMTask d). in_scope (filter' self) d t \<and> P t}"
      by (auto simp: map_of_select_row_uuid join_task_fields)
  next
    fix v assume "v \<in> (\<lambda>t. Some (Text (uuid t))) `
        {t \<in> set (TMTask d). in_scope (filter' self) d t \<and> P t}"
    then obtain t where t: "t \<in> set (TMTask d)" "in_scope (filter' self) d t" "P t"
      "v = Some (Text (uuid t))" by auto
    obtain tg where "tg \<in> set (tags_of d t)"
      using tags_of_nonempty [of d t] by (cases "tags_of d t") auto
    with t s assms(2) have "select_row d (join_task d t tg) \<in> set rs" by auto
    with t show "v \<in> set (column ''uuid'' rs)"
      by (force simp: column_def map_of_select_row_uuid join_task_fields)
  qed
  with r c show ?thesis by simp
qed

text \<open>
  With a filter id or a pasted text that is not plain, \<^verbatim>\<open>get_rows\<close> ends as the text does on the
  database: where the text does not parse, with \<^verbatim>\<open>sys.exit(2)\<close>. So it does for the tag name
  \<^verbatim>\<open>O'Brien\<close> and for the project id \<^verbatim>\<open>P'1\<close>.
\<close>

lemma get_rows_not_plain:
  "\<not> (filter_plain (filter' self) \<and> list_all plain pasted) \<Longrightarrow>
   injected d self label pasted = Inr (Inl error) \<Longrightarrow>
   get_rows self (Available d) label pasted cond order_by g = SysExit 2"
  by (auto simp: get_rows_def execute_query_def)

lemma get_rows_quote_example:
  "exit_status (get_waiting (self0\<lparr>tag_waiting := Str (''O'' @ [quote] @ ''Brien'')\<rparr>)
      (Available db1) g0) = Some 2 \<and>
   exit_status (get_anytime (self0\<lparr>filter' := ProjectFilter (''P'' @ [quote] @ ''1'')\<rparr>)
      (Available db1) g0) = Some 2"
  by code_simp

section \<open>The anytime view and its containers\<close>

text \<open>
  C5, as the claim states it, fails: without scope filter the anytime view returns \<^verbatim>\<open>T3\<close>,
  whose project \<^verbatim>\<open>P3\<close> is present, trashed and not anytime; \<^verbatim>\<open>P3\<close> has no title, and the
  view tests its containers only when \<^verbatim>\<open>title IS NULL\<close> fails.
\<close>

theorem anytime_container_counterexample:
  "filter' self0 = NoFilter \<and>
   map_option (column ''uuid'') (returned (get_anytime self0 (Available db1) g0)) =
     Some [Some (Text ''T1''), Some (Text ''T3''), Some (Text ''T5'')] \<and>
   uuid (TMTask db1 ! 4) = ''T3'' \<and>
   map_option (\<lambda>c. (uuid c, title c, trashed c, start c)) (project_of db1 (TMTask db1 ! 4)) =
     Some (''P3'', None, 1, 2)"
  by code_simp

text \<open>
  C5 (amended): the id of the scope filter is pasted into the query text unescaped. When it
  is plain (no quote and no NUL character), or no filter is set, the anytime view returns, on
  every store that answers, exactly the tasks in the scope of the filter that are not trashed,
  of the kind of the mode, open, anytime and not scheduled, and whose containers pass: each
  container (the project, and the project of the heading) that is present and has a title
  must be not trashed, and, when no scope filter is set, also anytime and not scheduled. A
  container that is absent, or present without a title, is not tested.
\<close>

theorem anytime_container_condition:
  "filter_plain (filter' self) \<longrightarrow>
   (\<exists>rows g'. get_anytime self (Available d) g = Return (rows, g') \<and>
     set (column ''uuid'' rows) = (\<lambda>t. Some (Text (uuid t))) ` {t \<in> set (TMTask d).
        in_scope (filter' self) d t \<and>
        trashed t = 0 \<and> type t = IS_TASK self \<and> status t = 0 \<and> start t = 1 \<and> startDate t = None \<and>
        (\<forall>c. (project_of d t = Some c \<or> head_project_of d t = Some c) \<and> title c \<noteq> None \<longrightarrow>
             trashed c = 0 \<and> (filter' self = NoFilter \<longrightarrow> start c = 1 \<and> startDate c = None))})"
proof
  assume fp: "filter_plain (filter' self)"
  have pn: "list_all plain []" by simp
  show "\<exists>rows g'. get_anytime self (Available d) g = Return (rows, g') \<and>
     set (column ''uuid'' rows) = (\<lambda>t. Some (Text (uuid t))) ` {t \<in> set (TMTask d).
        in_scope (filter' self) d t \<and>
        trashed t = 0 \<and> type t = IS_TASK self \<and> status t = 0 \<and> start t = 1 \<and> startDate t = None \<and>
        (\<forall>c. (project_of d t = Some c \<or> head_project_of d t = Some c) \<and> title c \<noteq> None \<longrightarrow>
             trashed c = 0 \<and> (filter' self = NoFilter \<longrightarrow> start c = 1 \<and> startDate c = None))}"
  proof (cases "filter' self = NoFilter")
    case True
    then have f: "\<not> filter_sql (filter' self) \<noteq> []" by simp
    show ?thesis
      unfolding get_anytime_def
      apply (subst if_not_P [OF f])
      apply (rule get_rows_uuids [OF permutes_sort_key _ fp pn])
      using True
      apply (auto simp: join_task_fields col_def holds_def is_task_def IS_NOT_TRASHED_def IS_OPEN_def
          IS_ANYTIME_def IS_NOT_SCHEDULED_def split: option.splits Option.bind_splits)
      done
  next
    case False
    then have f: "filter_sql (filter' self) \<noteq> []" by (cases "filter' self") simp_all
    show ?thesis
      unfolding get_anytime_def
      apply (subst if_P [OF f])
      apply (rule get_rows_uuids [OF permutes_sort_key _ fp pn])
      using False
      apply (auto simp: join_task_fields col_def holds_def is_task_def IS_NOT_TRASHED_def IS_OPEN_def
          IS_ANYTIME_def IS_NOT_SCHEDULED_def split: option.splits Option.bind_splits)
      done
  qed
qed

text \<open>
  On the database \<^verbatim>\<open>db2\<close>: without filter the view returns \<^verbatim>\<open>T1\<close> alone, the containers of the
  other tasks being someday, trashed or scheduled; with the filter on project \<^verbatim>\<open>P2\<close> it returns
  \<^verbatim>\<open>T2\<close> and \<^verbatim>\<open>T6\<close>, whose container \<^verbatim>\<open>P2\<close> is someday and not trashed; with the filter on the
  trashed project \<^verbatim>\<open>P4\<close> it returns nothing.
\<close>

theorem anytime_container_condition_witness:
  "filter_plain (filter' self0) \<and> filter_plain (filter' (self0\<lparr>filter' := ProjectFilter ''P2''\<rparr>)) \<and> filter_plain (filter' (self0\<lparr>filter' := ProjectFilter ''P4''\<rparr>)) \<and>
   map_option (column ''uuid'') (returned (get_anytime self0 (Available db2) g0)) =
     Some [Some (Text ''T1'')] \<and>
   (\<lambda>t. Some (Text (uuid t))) ` {t \<in> set (TMTask db2).
        in_scope (filter' self0) db2 t \<and>
        trashed t = 0 \<and> type t = IS_TASK self0 \<and> status t = 0 \<and> start t = 1 \<and> startDate t = None \<and>
        (\<forall>c. (project_of db2 t = Some c \<or> head_project_of db2 t = Some c) \<and> title c \<noteq> None \<longrightarrow>
             trashed c = 0 \<and> (filter' self0 = NoFilter \<longrightarrow> start c = 1 \<and> startDate c = None))} =
     {Some (Text ''T1'')} \<and>
   map_option (column ''uuid'') (returned (get_anytime (self0\<lparr>filter' := ProjectFilter ''P2''\<rparr>) (Available db2) g0)) =
     Some [Some (Text ''T2''), Some (Text ''T6'')] \<and>
   (\<lambda>t. Some (Text (uuid t))) ` {t \<in> set (TMTask db2).
        in_scope (filter' (self0\<lparr>filter' := ProjectFilter ''P2''\<rparr>)) db2 t \<and>
        trashed t = 0 \<and> type t = IS_TASK (self0\<lparr>filter' := ProjectFilter ''P2''\<rparr>) \<and> status t = 0 \<and> start t = 1 \<and> startDate t = None \<and>
        (\<forall>c. (project_of db2 t = Some c \<or> head_project_of db2 t = Some c) \<and> title c \<noteq> None \<longrightarrow>
             trashed c = 0 \<and> (filter' (self0\<lparr>filter' := ProjectFilter ''P2''\<rparr>) = NoFilter \<longrightarrow> start c = 1 \<and> startDate c = None))} =
     {Some (Text ''T2''), Some (Text ''T6'')} \<and>
   map_option (column ''uuid'') (returned (get_anytime (self0\<lparr>filter' := ProjectFilter ''P4''\<rparr>) (Available db2) g0)) = Some [] \<and>
   (\<lambda>t. Some (Text (uuid t))) ` {t \<in> set (TMTask db2).
        in_scope (filter' (self0\<lparr>filter' := ProjectFilter ''P4''\<rparr>)) db2 t \<and>
        trashed t = 0 \<and> type t = IS_TASK (self0\<lparr>filter' := ProjectFilter ''P4''\<rparr>) \<and> status t = 0 \<and> start t = 1 \<and> startDate t = None \<and>
        (\<forall>c. (project_of db2 t = Some c \<or> head_project_of db2 t = Some c) \<and> title c \<noteq> None \<longrightarrow>
             trashed c = 0 \<and> (filter' (self0\<lparr>filter' := ProjectFilter ''P4''\<rparr>) = NoFilter \<longrightarrow> start c = 1 \<and> startDate c = None))} = {}"
proof -
  have p: "filter_plain (filter' self0) \<and> filter_plain (filter' (self0\<lparr>filter' := ProjectFilter ''P2''\<rparr>)) \<and> filter_plain (filter' (self0\<lparr>filter' := ProjectFilter ''P4''\<rparr>))"
    by code_simp
  have e0: "map_option (column ''uuid'') (returned (get_anytime self0 (Available db2) g0)) =
     Some [Some (Text ''T1'')]"
    by code_simp
  have e2: "map_option (column ''uuid'') (returned (get_anytime (self0\<lparr>filter' := ProjectFilter ''P2''\<rparr>) (Available db2) g0)) =
     Some [Some (Text ''T2''), Some (Text ''T6'')]"
    by code_simp
  have e4: "map_option (column ''uuid'') (returned (get_anytime (self0\<lparr>filter' := ProjectFilter ''P4''\<rparr>) (Available db2) g0)) = Some []"
    by code_simp
  from p anytime_container_condition [of self0 db2 g0] obtain rows0 g0' where
    r0: "get_anytime self0 (Available db2) g0 = Return (rows0, g0')" and
    s0: "set (column ''uuid'' rows0) = (\<lambda>t. Some (Text (uuid t))) ` {t \<in> set (TMTask db2).
        in_scope (filter' self0) db2 t \<and>
        trashed t = 0 \<and> type t = IS_TASK self0 \<and> status t = 0 \<and> start t = 1 \<and> startDate t = None \<and>
        (\<forall>c. (project_of db2 t = Some c \<or> head_project_of db2 t = Some c) \<and> title c \<noteq> None \<longrightarrow>
             trashed c = 0 \<and> (filter' self0 = NoFilter \<longrightarrow> start c = 1 \<and> startDate c = None))}"
    by blast
  from p anytime_container_condition [of "self0\<lparr>filter' := ProjectFilter ''P2''\<rparr>" db2 g0] obtain rows2 g2' where
    r2: "get_anytime (self0\<lparr>filter' := ProjectFilter ''P2''\<rparr>) (Available db2) g0 = Return (rows2, g2')" and
    s2: "set (column ''uuid'' rows2) = (\<lambda>t. Some (Text (uuid t))) ` {t \<in> set (TMTask db2).
        in_scope (filter' (self0\<lparr>filter' := ProjectFilter ''P2''\<rparr>)) db2 t \<and>
        trashed t = 0 \<and> type t = IS_TASK (self0\<lparr>filter' := ProjectFilter ''P2''\<rparr>) \<and> status t = 0 \<and> start t = 1 \<and> startDate t = None \<and>
        (\<forall>c. (project_of db2 t = Some c \<or> head_project_of db2 t = Some c) \<and> title c \<noteq> None \<longrightarrow>
             trashed c = 0 \<and> (filter' (self0\<lparr>filter' := ProjectFilter ''P2''\<rparr>) = NoFilter \<longrightarrow> start c = 1 \<and> startDate c = None))}"
    by blast
  from p anytime_container_condition [of "self0\<lparr>filter' := ProjectFilter ''P4''\<rparr>" db2 g0] obtain rows4 g4' where
    r4: "get_anytime (self0\<lparr>filter' := ProjectFilter ''P4''\<rparr>) (Available db2) g0 = Return (rows4, g4')" and
    s4: "set (column ''uuid'' rows4) = (\<lambda>t. Some (Text (uuid t))) ` {t \<in> set (TMTask db2).
        in_scope (filter' (self0\<lparr>filter' := ProjectFilter ''P4''\<rparr>)) db2 t \<and>
        trashed t = 0 \<and> type t = IS_TASK (self0\<lparr>filter' := ProjectFilter ''P4''\<rparr>) \<and> status t = 0 \<and> start t = 1 \<and> startDate t = None \<and>
        (\<forall>c. (project_of db2 t = Some c \<or> head_project_of db2 t = Some c) \<and> title c \<noteq> None \<longrightarrow>
             trashed c = 0 \<and> (filter' (self0\<lparr>filter' := ProjectFilter ''P4''\<rparr>) = NoFilter \<longrightarrow> start c = 1 \<and> startDate c = None))}"
    by blast
  from r0 e0 have "column ''uuid'' rows0 = [Some (Text ''T1'')]" by simp
  with s0 have c0: "(\<lambda>t. Some (Text (uuid t))) ` {t \<in> set (TMTask db2).
        in_scope (filter' self0) db2 t \<and>
        trashed t = 0 \<and> type t = IS_TASK self0 \<and> status t = 0 \<and> start t = 1 \<and> startDate t = None \<and>
        (\<forall>c. (project_of db2 t = Some c \<or> head_project_of db2 t = Some c) \<and> title c \<noteq> None \<longrightarrow>
             trashed c = 0 \<and> (filter' self0 = NoFilter \<longrightarrow> start c = 1 \<and> startDate c = None))} = {Some (Text ''T1'')}" by simp
  from r2 e2 have "column ''uuid'' rows2 = [Some (Text ''T2''), Some (Text ''T6'')]" by simp
  with s2 have c2: "(\<lambda>t. Some (Text (uuid t))) ` {t \<in> set (TMTask db2).
        in_scope (filter' (self0\<lparr>filter' := ProjectFilter ''P2''\<rparr>)) db2 t \<and>
        trashed t = 0 \<and> type t = IS_TASK (self0\<lparr>filter' := ProjectFilter ''P2''\<rparr>) \<and> status t = 0 \<and> start t = 1 \<and> startDate t = None \<and>
        (\<forall>c. (project_of db2 t = Some c \<or> head_project_of db2 t = Some c) \<and> title c \<noteq> None \<longrightarrow>
             trashed c = 0 \<and> (filter' (self0\<lparr>filter' := ProjectFilter ''P2''\<rparr>) = NoFilter \<longrightarrow> start c = 1 \<and> startDate c = None))} = {Some (Text ''T2''), Some (Text ''T6'')}" by simp
  from r4 e4 have "column ''uuid'' rows4 = []" by simp
  with s4 have c4: "(\<lambda>t. Some (Text (uuid t))) ` {t \<in> set (TMTask db2).
        in_scope (filter' (self0\<lparr>filter' := ProjectFilter ''P4''\<rparr>)) db2 t \<and>
        trashed t = 0 \<and> type t = IS_TASK (self0\<lparr>filter' := ProjectFilter ''P4''\<rparr>) \<and> status t = 0 \<and> start t = 1 \<and> startDate t = None \<and>
        (\<forall>c. (project_of db2 t = Some c \<or> head_project_of db2 t = Some c) \<and> title c \<noteq> None \<longrightarrow>
             trashed c = 0 \<and> (filter' (self0\<lparr>filter' := ProjectFilter ''P4''\<rparr>) = NoFilter \<longrightarrow> start c = 1 \<and> startDate c = None))} = {}" by simp
  from p e0 e2 e4 c0 c2 c4 show ?thesis by blast
qed

section \<open>Context resolution\<close>

lemma get_rows_context:
  assumes "permutes order_by" and "\<not> truthy (anonymize self)"
    and "filter_plain (filter' self)" and "list_all plain pasted"
    and "get_rows self (Available d) label pasted cond order_by g = Return (rows, g')"
    and "r \<in> set rows"
  shows "\<exists>t \<in> set (TMTask d). context_resolved d t r"
proof -
  from set_get_rows_query [OF assms(1), of self cond d] obtain rs where
    q: "get_rows_query self cond order_by d = Inr rs" and
    s: "set rs = {select_row d (join_task d t tg) | t tg.
                 t \<in> set (TMTask d) \<and> tg \<in> set (tags_of d t) \<and>
                 in_scope (filter' self) d t \<and> cond d (join_task d t tg)}" by blast
  from get_rows_returns [OF q assms(3,4), of label g] assms(2,5) have "rows = rs" by auto
  with assms(6) s obtain t tg where t: "t \<in> set (TMTask d)" "r = select_row d (join_task d t tg)"
    by auto
  have "context_resolved d t (select_row d (join_task d t tg))"
    by (auto simp: context_resolved_def select_row_def context_title_def context_uuid_def
        join_task_fields col_def text_or_null_def split: option.splits Option.bind_splits)
  with t show ?thesis by blast
qed

lemma get_rows_views_context:
  assumes v: "view \<in> set get_rows_views" and a: "\<not> truthy (anonymize self)"
    and p: "plain_state self"
    and ret: "view self (Available d) g = Return (rows, g')" and r: "r \<in> set rows"
  shows "\<exists>t \<in> set (TMTask d). context_resolved d t r"
proof -
  from p have fp: "filter_plain (filter' self)"
    and pw: "list_all plain [py_str (tag_waiting self)]"
    and pm: "list_all plain [py_str (tag_mit self)]"
    and pc: "list_all plain [py_str (tag_cleanup self)]"
    by (simp_all add: plain_state_def)
  have pn: "list_all plain []" by simp
  note ord = get_rows_context [OF permutes_sort_key a fp pn _ r]
  note unord = get_rows_context [OF permutes_id a fp pn _ r]
  note waiting = get_rows_context [OF permutes_sort_key a fp pw _ r]
  note mit = get_rows_context [OF permutes_sort_key a fp pm _ r]
  from v consider "view = get_inbox" | "view = get_today" | "view = get_anytime"
    | "view = get_someday" | "view = get_upcoming" | "view = get_waiting" | "view = get_mit"
    | "view = get_completed" | "view = get_cancelled" | "view = get_trashed" | "view = get_all"
    | "view = get_due" | "view = get_lint" | "view = get_empty_projects" | "view = get_cleanup"
    by (auto simp: get_rows_views_def)
  then show ?thesis
  proof cases
    case 1
    with ret show ?thesis unfolding get_inbox_def by (auto intro: ord)
  next
    case 2
    with ret show ?thesis unfolding get_today_def by (auto intro: ord)
  next
    case 3
    with ret show ?thesis unfolding get_anytime_def by (auto intro: ord split: if_splits)
  next
    case 4
    with ret show ?thesis unfolding get_someday_def by (auto intro: ord)
  next
    case 5
    with ret show ?thesis unfolding get_upcoming_def by (auto intro: ord)
  next
    case 6
    with ret show ?thesis unfolding get_waiting_def get_tag_def by (auto intro: waiting)
  next
    case 7
    with ret show ?thesis unfolding get_mit_def get_tag_def by (auto intro: mit)
  next
    case 8
    with ret show ?thesis unfolding get_completed_def by (auto intro: ord)
  next
    case 9
    with ret show ?thesis unfolding get_cancelled_def by (auto intro: ord)
  next
    case 10
    with ret show ?thesis unfolding get_trashed_def by (auto intro: ord)
  next
    case 11
    with ret show ?thesis unfolding get_all_def by (auto intro: unord)
  next
    case 12
    with ret show ?thesis unfolding get_due_def by (auto intro: ord)
  next
    case 13
    with ret show ?thesis unfolding get_lint_def by (auto intro: unord)
  next
    case 14
    with ret show ?thesis unfolding get_empty_projects_def by (auto intro: unord)
  next
    case 15
    with ret obtain lint g1 empty_projects g2 tagged where
      l: "get_lint self (Available d) g = Return (lint, g1)" and
      e: "get_empty_projects self (Available d) g1 = Return (empty_projects, g2)" and
      t: "get_tag self (tag_cleanup self) (Available d) g2 = Return (tagged, g')" and
      rs: "rows = lint @ empty_projects @ tagged"
      by (auto simp: get_cleanup_def and_then_Return split: prod.splits)
    from r rs consider "r \<in> set lint" | "r \<in> set empty_projects" | "r \<in> set tagged" by auto
    then show ?thesis
    proof cases
      case 1
      with l show ?thesis unfolding get_lint_def
        by (auto intro: get_rows_context [OF permutes_id a fp pn])
    next
      case 2
      with e show ?thesis unfolding get_empty_projects_def
        by (auto intro: get_rows_context [OF permutes_id a fp pn])
    next
      case 3
      with t show ?thesis unfolding get_tag_def
        by (auto intro: get_rows_context [OF permutes_sort_key a fp pc])
    qed
  qed
qed

lemma get_rows_total:
  assumes "permutes order_by" and "filter_plain (filter' self)" and "list_all plain pasted"
  shows "\<exists>rows g'. get_rows self (Available d) label pasted cond order_by g = Return (rows, g')"
proof -
  from set_get_rows_query [OF assms(1), of self cond d] obtain rs
    where "get_rows_query self cond order_by d = Inr rs" by blast
  from get_rows_returns [OF this assms(2,3), of label g] show ?thesis by blast
qed

lemma get_rows_views_total:
  assumes "view \<in> set get_rows_views" and p: "plain_state self"
  shows "\<exists>rows g'. view self (Available d) g = Return (rows, g')"
proof -
  from p have fp: "filter_plain (filter' self)"
    and pw: "list_all plain [py_str (tag_waiting self)]"
    and pm: "list_all plain [py_str (tag_mit self)]"
    and pc: "list_all plain [py_str (tag_cleanup self)]"
    by (simp_all add: plain_state_def)
  have pn: "list_all plain []" by simp
  note ord = get_rows_total [OF permutes_sort_key fp pn]
  note unord = get_rows_total [OF permutes_id fp pn]
  note waiting = get_rows_total [OF permutes_sort_key fp pw]
  note mit = get_rows_total [OF permutes_sort_key fp pm]
  note cleanup = get_rows_total [OF permutes_sort_key fp pc]
  from assms(1) consider "view = get_inbox" | "view = get_today" | "view = get_anytime"
    | "view = get_someday" | "view = get_upcoming" | "view = get_waiting" | "view = get_mit"
    | "view = get_completed" | "view = get_cancelled" | "view = get_trashed" | "view = get_all"
    | "view = get_due" | "view = get_lint" | "view = get_empty_projects" | "view = get_cleanup"
    by (auto simp: get_rows_views_def)
  then show ?thesis
  proof cases
    case 1 show ?thesis unfolding 1 get_inbox_def by (rule ord)
  next
    case 2 show ?thesis unfolding 2 get_today_def by (rule ord)
  next
    case 3 show ?thesis unfolding 3 get_anytime_def by (split if_split) (intro conjI impI ord)
  next
    case 4 show ?thesis unfolding 4 get_someday_def by (rule ord)
  next
    case 5 show ?thesis unfolding 5 get_upcoming_def by (rule ord)
  next
    case 6 show ?thesis unfolding 6 get_waiting_def get_tag_def by (rule waiting)
  next
    case 7 show ?thesis unfolding 7 get_mit_def get_tag_def by (rule mit)
  next
    case 8 show ?thesis unfolding 8 get_completed_def by (rule ord)
  next
    case 9 show ?thesis unfolding 9 get_cancelled_def by (rule ord)
  next
    case 10 show ?thesis unfolding 10 get_trashed_def by (rule ord)
  next
    case 11 show ?thesis unfolding 11 get_all_def by (rule unord)
  next
    case 12 show ?thesis unfolding 12 get_due_def by (rule ord)
  next
    case 13 show ?thesis unfolding 13 get_lint_def by (rule unord)
  next
    case 14 show ?thesis unfolding 14 get_empty_projects_def by (rule unord)
  next
    case 15
    obtain lint g1 where l: "get_lint self (Available d) g = Return (lint, g1)"
      unfolding get_lint_def using unord by blast
    obtain empty_projects g2 where e: "get_empty_projects self (Available d) g1 = Return (empty_projects, g2)"
      unfolding get_empty_projects_def using unord by blast
    obtain tagged g3 where t: "get_tag self (tag_cleanup self) (Available d) g2 = Return (tagged, g3)"
      unfolding get_tag_def using cleanup by blast
    show ?thesis unfolding 15 get_cleanup_def by (simp add: l e t)
  qed
qed

text \<open>
  C2, as the claim states it, fails: task \<^verbatim>\<open>T5\<close> has only a heading, \<^verbatim>\<open>H1\<close>, whose own project
  is \<^verbatim>\<open>P1\<close>; its row has the heading's title as context and no context id, where the claim
  gives the id \<^verbatim>\<open>P1\<close>.
\<close>

theorem context_resolution_counterexample:
  "map_option (map (\<lambda>r. (map_of r ''uuid'', map_of r ''context'', map_of r ''context_uuid'')))
     (returned (get_all self0 (Available db1) g0)) =
   Some [(Some (Text ''T1''), Some (Text ''Proj1''), Some (Text ''P1'')),
         (Some (Text ''T3''), Some Null, Some (Text ''P3'')),
         (Some (Text ''T5''), Some (Text ''Head1''), Some Null)] \<and>
   uuid (TMTask db1 ! 5) = ''T5'' \<and>
   map_option uuid (heading_of db1 (TMTask db1 ! 5)) = Some ''H1'' \<and>
   claimed_context_uuid db1 (TMTask db1 ! 5) = Text ''P1''"
  by code_simp

text \<open>
  C2 (amended): the views that select through \<^verbatim>\<open>get_rows\<close> paste the id of the scope filter
  and their tag name into the query text unescaped. When these are plain (no quote and no NUL
  character), every such view returns on a store that answers, and, anonymization being off,
  each of its rows is the row of a task of the database with: as context title, the area's
  title if the area is found and has a title, else the project's title if the project is
  found and has a title, else the heading's title; as context id, the area's id if the area
  is found, else the project's id if the project is found, else none, also when the task has
  a heading whose own project is known.
\<close>

theorem context_resolution:
  "view \<in> set get_rows_views \<and> plain_state self \<longrightarrow>
     (\<exists>rows g'. view self (Available d) g = Return (rows, g') \<and>
        (\<not> truthy (anonymize self) \<longrightarrow>
           (\<forall>r \<in> set rows. \<exists>t \<in> set (TMTask d). context_resolved d t r)))"
  using get_rows_views_total [of view self d g] get_rows_views_context [of view self d g]
  by blast

theorem context_resolution_witness:
  "plain_state (self0\<lparr>filter' := ProjectFilter ''P1''\<rparr>) \<and>
   returned (get_all (self0\<lparr>filter' := ProjectFilter ''P1''\<rparr>) (Available db1) g0) =
     Some [select_row db1 (join_task db1 (TMTask db1 ! 3) (Some \<lparr> tasks = ''T1'', tags = ''G1'' \<rparr>)),
           select_row db1 (join_task db1 (TMTask db1 ! 5) None)] \<and>
   (\<exists>t \<in> set (TMTask db1).
      context_resolved db1 t (select_row db1 (join_task db1 (TMTask db1 ! 5) None))) \<and>
   map_of (select_row db1 (join_task db1 (TMTask db1 ! 5) None)) ''context'' = Some (Text ''Head1'') \<and>
   map_of (select_row db1 (join_task db1 (TMTask db1 ! 5) None)) ''context_uuid'' = Some Null"
proof -
  have v: "get_all \<in> set get_rows_views" by (simp add: get_rows_views_def)
  have a: "\<not> truthy (anonymize (self0\<lparr>filter' := ProjectFilter ''P1''\<rparr>))" by code_simp
  have p: "plain_state (self0\<lparr>filter' := ProjectFilter ''P1''\<rparr>)" by code_simp
  from context_resolution [of get_all "self0\<lparr>filter' := ProjectFilter ''P1''\<rparr>" db1 g0] v a p
  obtain rows g' where
    ret: "get_all (self0\<lparr>filter' := ProjectFilter ''P1''\<rparr>) (Available db1) g0 = Return (rows, g')" and
    res: "\<forall>r \<in> set rows. \<exists>t \<in> set (TMTask db1). context_resolved db1 t r" by blast
  have e: "returned (get_all (self0\<lparr>filter' := ProjectFilter ''P1''\<rparr>) (Available db1) g0) =
     Some [select_row db1 (join_task db1 (TMTask db1 ! 3) (Some \<lparr> tasks = ''T1'', tags = ''G1'' \<rparr>)),
           select_row db1 (join_task db1 (TMTask db1 ! 5) None)]"
    by code_simp
  with ret have "select_row db1 (join_task db1 (TMTask db1 ! 5) None) \<in> set rows" by simp
  with res have "\<exists>t \<in> set (TMTask db1).
      context_resolved db1 t (select_row db1 (join_task db1 (TMTask db1 ! 5) None))" by blast
  moreover have "map_of (select_row db1 (join_task db1 (TMTask db1 ! 5) None)) ''context'' = Some (Text ''Head1'') \<and>
   map_of (select_row db1 (join_task db1 (TMTask db1 ! 5) None)) ''context_uuid'' = Some Null"
    by code_simp
  ultimately show ?thesis using e p by blast
qed

section \<open>The largest projects\<close>

lemma sorted_desc_sort_key:
  "sorted_wrt (\<ge>) (map c (sort_key (\<lambda>x. - c x) xs))" for c :: "'a \<Rightarrow> int"
proof -
  have "sorted (map (\<lambda>x. - c x) (sort_key (\<lambda>x. - c x) xs))" by (rule sorted_sort_key)
  then show ?thesis by (simp add: sorted_wrt_map)
qed

text \<open>
  C8, as the claim states it, fails: project \<^verbatim>\<open>P1\<close> has three open children that are not
  trashed, among them \<^verbatim>\<open>X1\<close>, a row of kind project; the view reports 3, and the children of
  another kind than project are 2.
\<close>

theorem largest_projects_counterexample:
  "map_option (map (\<lambda>r. (map_of r ''uuid'', map_of r ''tasks'')))
     (returned (get_largest_projects self0 (Available db1) g0)) =
   Some [(Some (Text ''P1''), Some (Integer 3)), (Some (Text ''X1''), Some (Integer 0))] \<and>
   length (filter (\<lambda>c. project c = Some ''P1'' \<and> trashed c = 0 \<and> status c = 0 \<and> type c \<noteq> 1)
             (TMTask db1)) = 2"
  by code_simp

text \<open>
  C8 (amended): on a store that answers, anonymization being off, the largest-projects view
  returns one row for each open project that is not trashed; the count of a row is the
  number of rows of \<^verbatim>\<open>TMTask\<close>, of any kind, that are not trashed, open, and whose parent
  project is the row's project; and the rows are in descending order of this count.
\<close>

theorem largest_projects_counts:
  "\<not> truthy (anonymize self) \<longrightarrow>
     (\<exists>rows. get_largest_projects self (Available d) g = Return (rows, g) \<and>
        mset (column ''uuid'' rows) =
          mset (map (\<lambda>t. Some (Text (uuid t)))
                 (filter (\<lambda>t. trashed t = 0 \<and> status t = 0 \<and> type t = 1) (TMTask d))) \<and>
        (\<forall>r \<in> set rows. \<exists>t \<in> set (TMTask d).
            trashed t = 0 \<and> status t = 0 \<and> type t = 1 \<and>
            map_of r ''uuid'' = Some (Text (uuid t)) \<and>
            map_of r ''tasks'' = Some (Integer (int (length
              (filter (\<lambda>c. project c = Some (uuid t) \<and> trashed c = 0 \<and> status c = 0) (TMTask d)))))) \<and>
        (\<exists>ns. column ''tasks'' rows = map (\<lambda>n. Some (Integer n)) ns \<and> sorted_wrt (\<ge>) ns))"
proof
  assume a: "\<not> truthy (anonymize self)"
  let ?P = "\<lambda>t. IS_NOT_TRASHED t \<and> IS_OPEN t \<and> IS_PROJECT t"
  let ?c = "\<lambda>t. int (count_project_tasks d (uuid t))"
  let ?xs = "sort_key (\<lambda>t. - ?c t) (filter ?P (TMTask d))"
  let ?f = "\<lambda>t. [(''uuid'', Text (uuid t)),
                     (''title'', text_or_null (title t)),
                     (''created'', int_or_null (creationDate t)),
                     (''modified'', int_or_null (userModificationDate t)),
                     (''tasks'', Integer (?c t))]"
  let ?rows = "map ?f ?xs"
  have ret: "get_largest_projects self (Available d) g = Return (?rows, g)"
    using a by (simp add: get_largest_projects_def execute_query_def anonymize_tasks_def
        get_largest_projects_query_def)
  have P: "?P = (\<lambda>t. trashed t = 0 \<and> status t = 0 \<and> type t = 1)"
    by (auto simp: IS_NOT_TRASHED_def IS_OPEN_def IS_PROJECT_def)
  have u: "column ''uuid'' ?rows = map (\<lambda>t. Some (Text (uuid t))) ?xs"
    by (simp add: column_def)
  have "mset (map (\<lambda>t. Some (Text (uuid t))) ?xs) =
      mset (map (\<lambda>t. Some (Text (uuid t))) (filter ?P (TMTask d)))"
    by simp
  with u P have m: "mset (column ''uuid'' ?rows) =
          mset (map (\<lambda>t. Some (Text (uuid t)))
                 (filter (\<lambda>t. trashed t = 0 \<and> status t = 0 \<and> type t = 1) (TMTask d)))"
    by simp
  have each: "\<forall>r \<in> set ?rows. \<exists>t \<in> set (TMTask d).
            trashed t = 0 \<and> status t = 0 \<and> type t = 1 \<and>
            map_of r ''uuid'' = Some (Text (uuid t)) \<and>
            map_of r ''tasks'' = Some (Integer (int (length
              (filter (\<lambda>c. project c = Some (uuid t) \<and> trashed c = 0 \<and> status c = 0) (TMTask d)))))"
  proof
    fix r assume "r \<in> set ?rows"
    then obtain t where t: "t \<in> set (TMTask d)" "?P t" "r = ?f t" by auto
    then show "\<exists>t \<in> set (TMTask d).
            trashed t = 0 \<and> status t = 0 \<and> type t = 1 \<and>
            map_of r ''uuid'' = Some (Text (uuid t)) \<and>
            map_of r ''tasks'' = Some (Integer (int (length
              (filter (\<lambda>c. project c = Some (uuid t) \<and> trashed c = 0 \<and> status c = 0) (TMTask d)))))"
      by (intro bexI [of _ t])
         (simp_all add: count_project_tasks_def IS_NOT_TRASHED_def IS_OPEN_def IS_PROJECT_def)
  qed
  have "column ''tasks'' ?rows = map (\<lambda>n. Some (Integer n)) (map ?c ?xs)"
    by (simp add: column_def o_def)
  moreover have "sorted_wrt (\<ge>) (map ?c ?xs)" by (rule sorted_desc_sort_key)
  ultimately have s: "\<exists>ns. column ''tasks'' ?rows = map (\<lambda>n. Some (Integer n)) ns \<and> sorted_wrt (\<ge>) ns"
    by blast
  from ret m each s show "\<exists>rows. get_largest_projects self (Available d) g = Return (rows, g) \<and>
        mset (column ''uuid'' rows) =
          mset (map (\<lambda>t. Some (Text (uuid t)))
                 (filter (\<lambda>t. trashed t = 0 \<and> status t = 0 \<and> type t = 1) (TMTask d))) \<and>
        (\<forall>r \<in> set rows. \<exists>t \<in> set (TMTask d).
            trashed t = 0 \<and> status t = 0 \<and> type t = 1 \<and>
            map_of r ''uuid'' = Some (Text (uuid t)) \<and>
            map_of r ''tasks'' = Some (Integer (int (length
              (filter (\<lambda>c. project c = Some (uuid t) \<and> trashed c = 0 \<and> status c = 0) (TMTask d)))))) \<and>
        (\<exists>ns. column ''tasks'' rows = map (\<lambda>n. Some (Integer n)) ns \<and> sorted_wrt (\<ge>) ns)"
    by blast
qed

theorem largest_projects_counts_witness:
  "returned (get_largest_projects self0 (Available db1) g0) =
     Some [[(''uuid'', Text ''P1''), (''title'', Text ''Proj1''), (''created'', Null),
            (''modified'', Null), (''tasks'', Integer 3)],
           [(''uuid'', Text ''X1''), (''title'', Text ''Sub''), (''created'', Null),
            (''modified'', Null), (''tasks'', Integer 0)]] \<and>
   (\<exists>t \<in> set (TMTask db1).
       trashed t = 0 \<and> status t = 0 \<and> type t = 1 \<and> Some (Text ''P1'') = Some (Text (uuid t)) \<and>
       Some (Integer 3) = Some (Integer (int (length
          (filter (\<lambda>c. project c = Some (uuid t) \<and> trashed c = 0 \<and> status c = 0) (TMTask db1))))))"
proof -
  have a: "\<not> truthy (anonymize self0)" by code_simp
  from largest_projects_counts [of self0 db1 g0] a obtain rows where
    ret: "get_largest_projects self0 (Available db1) g0 = Return (rows, g0)" and
    each: "\<forall>r \<in> set rows. \<exists>t \<in> set (TMTask db1).
            trashed t = 0 \<and> status t = 0 \<and> type t = 1 \<and>
            map_of r ''uuid'' = Some (Text (uuid t)) \<and>
            map_of r ''tasks'' = Some (Integer (int (length
              (filter (\<lambda>c. project c = Some (uuid t) \<and> trashed c = 0 \<and> status c = 0) (TMTask db1)))))"
    by blast
  have e: "returned (get_largest_projects self0 (Available db1) g0) =
     Some [[(''uuid'', Text ''P1''), (''title'', Text ''Proj1''), (''created'', Null),
            (''modified'', Null), (''tasks'', Integer 3)],
           [(''uuid'', Text ''X1''), (''title'', Text ''Sub''), (''created'', Null),
            (''modified'', Null), (''tasks'', Integer 0)]]"
    by code_simp
  with ret have "[(''uuid'', Text ''P1''), (''title'', Text ''Proj1''), (''created'', Null),
            (''modified'', Null), (''tasks'', Integer 3)] \<in> set rows" by simp
  with each have "\<exists>t \<in> set (TMTask db1).
            trashed t = 0 \<and> status t = 0 \<and> type t = 1 \<and>
            map_of [(''uuid'', Text ''P1''), (''title'', Text ''Proj1''), (''created'', Null),
            (''modified'', Null), (''tasks'', Integer 3)] ''uuid'' = Some (Text (uuid t)) \<and>
            map_of [(''uuid'', Text ''P1''), (''title'', Text ''Proj1''), (''created'', Null),
            (''modified'', Null), (''tasks'', Integer 3)] ''tasks'' = Some (Integer (int (length
              (filter (\<lambda>c. project c = Some (uuid t) \<and> trashed c = 0 \<and> status c = 0) (TMTask db1)))))"
    by blast
  then have "\<exists>t \<in> set (TMTask db1).
       trashed t = 0 \<and> status t = 0 \<and> type t = 1 \<and> Some (Text ''P1'') = Some (Text (uuid t)) \<and>
       Some (Integer 3) = Some (Integer (int (length
          (filter (\<lambda>c. project c = Some (uuid t) \<and> trashed c = 0 \<and> status c = 0) (TMTask db1)))))"
    by simp
  with e show ?thesis by blast
qed

text \<open>
  With anonymization on, the rows of the view have no \<^verbatim>\<open>context\<close> column and the call ends
  with \<^verbatim>\<open>KeyError\<close>.
\<close>

lemma largest_projects_anonymized:
  "raised (get_largest_projects (self0\<lparr>anonymize := Bool True\<rparr>) (Available db1) g0) =
   Some (KeyError ''context'')"
  by code_simp

section \<open>The daily activity statistics\<close>

lemma day_count_tasks_on_day:
  "day_count d (\<lambda>t. cond t \<and> is_task self t) date_column (date_unixepoch (Some s)) =
     tasks_on_day self d cond date_column s"
  "day_count d (is_task self) date_column (date_unixepoch (Some s)) =
     tasks_on_day self d (\<lambda>t. True) date_column s"
  by (auto simp: day_count_def tasks_on_day_def is_task_def intro!: arg_cong [where f = length] filter_cong)

lemma status_conditions:
  "IS_DONE = (\<lambda>t. status t = 3)" "IS_CANCELLED = (\<lambda>t. status t = 2)"
  "IS_TRASHED = (\<lambda>t. trashed t = 1)"
  by (auto simp: IS_DONE_def IS_CANCELLED_def IS_TRASHED_def)

lemma get_daystats_query_rows:
  "get_daystats_query self d =
     Inr (map (\<lambda>x. daystats_row self d (now d - (365 - x) * 86400)) [0..364])"
proof -
  have e: "now d - days * 86400 + x * 86400 = now d - (365 - x) * 86400" for x
    by (simp add: days_def algebra_simps)
  have r: "[0..days - 1] = [0..364]" by (simp add: days_def)
  show ?thesis
    unfolding get_daystats_query_def timeseries_date_def e r day_count_tasks_on_day
      daystats_row_def status_conditions ..
qed

lemma get_daystats_rows:
  "\<not> truthy (anonymize self) \<Longrightarrow>
   get_daystats self (Available d) g =
     Return (map (\<lambda>x. daystats_row self d (now d - (365 - x) * 86400)) [0..364], g)"
  by (simp add: get_daystats_def execute_query_def anonymize_tasks_def get_daystats_query_rows)

lemma length_daystats: "length (map f [0..364]) = 365"
  by simp

lemma nth_daystats: "i < 365 \<Longrightarrow> map f [0..364] ! i = f (int i)"
  by simp

lemma date_unixepoch_day:
  "- 210866760000 \<le> s + k * 86400 \<Longrightarrow> s + k * 86400 \<le> 253402300799 \<Longrightarrow>
   date_unixepoch (Some (s + k * 86400)) = Text (date_text (s div 86400 + k))"
  by (simp add: date_unixepoch_def add.commute)

text \<open>
  C3, as the claim states it, fails: on 2025-11-03 the view returns 365 rows from 2024-11-03
  to 2025-11-02, so the window ends the day before today; and the counts of a day without
  activity are \<^verbatim>\<open>NULL\<close>, not zero.
\<close>

theorem daystats_counterexample:
  "map_option (\<lambda>rows. (length rows, rows ! 0, rows ! 364))
     (returned (get_daystats self0 (Available db1) g0)) =
   Some (365,
     [(''date'', Text ''2024-11-03''), (''created'', Null), (''completed'', Null),
      (''cancelled'', Null), (''trashed'', Null)],
     [(''date'', Text ''2025-11-02''), (''created'', Null), (''completed'', Null),
      (''cancelled'', Null), (''trashed'', Null)]) \<and>
   date_unixepoch (Some (now db1)) = Text ''2025-11-03''"
proof -
  have a: "\<not> truthy (anonymize self0)" by code_simp
  have r0: "daystats_row self0 db1 (now db1 - (365 - int 0) * 86400) =
     [(''date'', Text ''2024-11-03''), (''created'', Null), (''completed'', Null),
      (''cancelled'', Null), (''trashed'', Null)]"
    by code_simp
  have r364: "daystats_row self0 db1 (now db1 - (365 - int 364) * 86400) =
     [(''date'', Text ''2025-11-02''), (''created'', Null), (''completed'', Null),
      (''cancelled'', Null), (''trashed'', Null)]"
    by code_simp
  have t: "date_unixepoch (Some (now db1)) = Text ''2025-11-03''" by code_simp
  have n0: "map (\<lambda>x. daystats_row self0 db1 (now db1 - (365 - x) * 86400)) [0..364] ! 0 =
      daystats_row self0 db1 (now db1 - (365 - int 0) * 86400)"
    by (rule nth_daystats) simp
  have n364: "map (\<lambda>x. daystats_row self0 db1 (now db1 - (365 - x) * 86400)) [0..364] ! 364 =
      daystats_row self0 db1 (now db1 - (365 - int 364) * 86400)"
    by (rule nth_daystats) simp
  show ?thesis
    unfolding get_daystats_rows [OF a] returned.simps option.map prod.inject option.inject
      length_daystats n0 n364 r0 r364 t
    by (intro conjI refl)
qed

text \<open>
  C3 (amended): on a store that answers, anonymization being off, the day-stats view returns
  exactly 365 rows, one for each calendar day from 365 days before today to the day before
  today (today is not among them), in order and without gap; the counts of created,
  completed, cancelled and trashed rows of a day are the numbers of such rows of the kind of
  the mode, and a count is \<^verbatim>\<open>NULL\<close>, not zero, for a day without such a row.
\<close>

theorem daystats_rows:
  "\<not> truthy (anonymize self) \<longrightarrow>
     (\<exists>rows. get_daystats self (Available d) g = Return (rows, g) \<and> length rows = 365 \<and>
        (\<forall>i < 365. rows ! i = daystats_row self d (now d - (365 - int i) * 86400)) \<and>
        (- 210866760000 \<le> now d - 365 * 86400 \<and> now d \<le> 253402300799 \<longrightarrow>
           (\<forall>i < 365. map_of (rows ! i) ''date'' =
               Some (Text (date_text (now d div 86400 - 365 + int i)))))) \<and>
   left_join_count 0 = Null \<and> (\<forall>n. n \<noteq> 0 \<longrightarrow> left_join_count n = Integer (int n))"
proof -
  let ?rows = "map (\<lambda>x. daystats_row self d (now d - (365 - x) * 86400)) [0..364]"
  have nth: "\<forall>i < 365. ?rows ! i = daystats_row self d (now d - (365 - int i) * 86400)"
    using nth_daystats by blast
  have dates: "- 210866760000 \<le> now d - 365 * 86400 \<and> now d \<le> 253402300799 \<longrightarrow>
      (\<forall>i < 365. map_of (?rows ! i) ''date'' =
          Some (Text (date_text (now d div 86400 - 365 + int i))))"
  proof (intro impI allI)
    fix i :: nat
    assume range: "- 210866760000 \<le> now d - 365 * 86400 \<and> now d \<le> 253402300799" and i: "i < 365"
    have e1: "now d - (365 - int i) * 86400 = now d + (int i - 365) * 86400"
      by (simp add: algebra_simps)
    have e2: "now d div 86400 - 365 + int i = now d div 86400 + (int i - 365)" by simp
    have "date_unixepoch (Some (now d + (int i - 365) * 86400)) =
        Text (date_text (now d div 86400 + (int i - 365)))"
      using range i by (intro date_unixepoch_day) simp_all
    then have "date_unixepoch (Some (now d - (365 - int i) * 86400)) =
        Text (date_text (now d div 86400 - 365 + int i))" unfolding e1 e2 .
    with nth i show "map_of (?rows ! i) ''date'' =
          Some (Text (date_text (now d div 86400 - 365 + int i)))"
      by (simp add: daystats_row_def)
  qed
  have ret: "\<not> truthy (anonymize self) \<longrightarrow> get_daystats self (Available d) g = Return (?rows, g)"
    by (simp add: get_daystats_rows)
  have len: "length ?rows = 365" by (rule length_daystats)
  have ljc: "left_join_count 0 = Null \<and> (\<forall>n. n \<noteq> 0 \<longrightarrow> left_join_count n = Integer (int n))"
    by (simp add: left_join_count_def)
  from ret len nth dates ljc show ?thesis by blast
qed

theorem daystats_rows_witness:
  "\<exists>rows. get_daystats self0 (Available db1) g0 = Return (rows, g0) \<and> length rows = 365 \<and>
     rows ! 363 =
       [(''date'', Text ''2025-11-01''), (''created'', Integer 1), (''completed'', Null),
        (''cancelled'', Null), (''trashed'', Null)] \<and>
     map_of (rows ! 363) ''date'' = Some (Text (date_text (now db1 div 86400 - 365 + int 363)))"
proof -
  have a: "\<not> truthy (anonymize self0)" by code_simp
  have range: "- 210866760000 \<le> now db1 - 365 * 86400 \<and> now db1 \<le> 253402300799" by code_simp
  from daystats_rows [of self0 db1 g0] a range obtain rows where
    ret: "get_daystats self0 (Available db1) g0 = Return (rows, g0)" and len: "length rows = 365" and
    nth: "\<forall>i < 365. rows ! i = daystats_row self0 db1 (now db1 - (365 - int i) * 86400)" and
    dates: "\<forall>i < 365. map_of (rows ! i) ''date'' =
               Some (Text (date_text (now db1 div 86400 - 365 + int i)))"
    by blast
  have r363: "daystats_row self0 db1 (now db1 - (365 - int 363) * 86400) =
       [(''date'', Text ''2025-11-01''), (''created'', Integer 1), (''completed'', Null),
        (''cancelled'', Null), (''trashed'', Null)]"
    by code_simp
  have i: "(363::nat) < 365" by simp
  from nth i r363 have "rows ! 363 =
       [(''date'', Text ''2025-11-01''), (''created'', Integer 1), (''completed'', Null),
        (''cancelled'', Null), (''trashed'', Null)]" by metis
  moreover from dates i have "map_of (rows ! 363) ''date'' =
     Some (Text (date_text (now db1 div 86400 - 365 + int 363)))" by blast
  ultimately show ?thesis using ret len by blast
qed

text \<open>With anonymization on, the rows have no \<^verbatim>\<open>title\<close> and the call ends with \<^verbatim>\<open>KeyError\<close>.\<close>

lemma daystats_anonymized:
  "raised (get_daystats (self\<lparr>anonymize := Bool True\<rparr>) (Available d) g) = Some (KeyError ''title'')"
proof -
  have "[0..364] = 0 # [1..364]" by (simp add: upto_rec1)
  then show ?thesis
    by (simp add: get_daystats_def execute_query_def anonymize_tasks_def get_daystats_query_rows
        anonymize_task_def getitem_def daystats_row_def)
qed

section \<open>The dispatcher on an unknown view\<close>

text \<open>
  C4, as the claim states it, fails: the response to the unknown view \<^verbatim>\<open>nonexistent\<close> carries
  the HTTP status 404 (not found), where the response to a known view carries 200.
\<close>

theorem api_not_implemented_counterexample:
  "map_option rstatus (returned (api self0 (Available db1) ''nonexistent'' g0)) = Some 404 \<and>
   map_option rstatus (returned (api self0 (Available db1) ''areas'' g0)) = Some 200"
  by code_simp

text \<open>
  C4 (amended): for every view name that is not a key of \<^verbatim>\<open>functions\<close>, in every engine state
  and whatever the store, \<^verbatim>\<open>api\<close> returns, without raising and without a query, the response
  whose JSON body is the one record \<^verbatim>\<open>{"title": "not implemented"}\<close>, with the HTTP status
  404.
\<close>

theorem api_not_implemented:
  "command \<notin> set (map fst functions') \<longrightarrow>
     api self st command g =
       Return (\<lparr> response = Some [[(''title'', Text ''not implemented'')]],
                 content_type = Some ''application/json'', rstatus = 404 \<rparr>, g)"
proof
  assume "command \<notin> set (map fst functions')"
  then have "map_of functions' command = None" by (simp add: map_of_eq_None_iff)
  then show "api self st command g =
       Return (\<lparr> response = Some [[(''title'', Text ''not implemented'')]],
                 content_type = Some ''application/json'', rstatus = 404 \<rparr>, g)"
    by (simp add: api_def get_not_implemented_def)
qed

theorem api_not_implemented_witness:
  "api self0 (Available db1) ''nonexistent'' g0 =
     Return (\<lparr> response = Some [[(''title'', Text ''not implemented'')]],
               content_type = Some ''application/json'', rstatus = 404 \<rparr>, g0) \<and>
   api self0 (Unavailable ''unable to open database file'') ''anytime'' g0 =
     Return (\<lparr> response = Some [[(''title'', Text ''not implemented'')]],
               content_type = Some ''application/json'', rstatus = 404 \<rparr>, g0)"
proof -
  have a: "''nonexistent'' \<notin> set (map fst functions')" by (simp add: functions'_def)
  have b: "''anytime'' \<notin> set (map fst functions')" by (simp add: functions'_def)
  from a b api_not_implemented [of "''nonexistent''" self0 "Available db1" g0]
    api_not_implemented [of "''anytime''" self0 "Unavailable ''unable to open database file''" g0]
  show ?thesis by blast
qed

section \<open>The anonymizer as the last step\<close>

lemma anonymize_string_Return:
  "anonymize_string v g = Return r \<Longrightarrow> v = Null \<or> (\<exists>s. v = Text s)"
  by (cases v) auto

lemma anonymize_task_Return:
  assumes "anonymize_task task g = Return (task', g')"
  shows "has_text task ''title'' \<and> has_text task ''context''"
proof -
  from assms obtain v1 r1 where v1: "getitem task ''title'' = Return v1"
    and s1: "anonymize_string v1 g = Return r1"
    and rest: "(case r1 of (title', g1) \<Rightarrow>
         let task1 = setitem ''title'' title' task in
         and_then (getitem task1 ''context'') (\<lambda>context.
         and_then (anonymize_string context g1) (\<lambda>(context', g2).
         Return (setitem ''context'' context' task1, g2)))) = Return (task', g')"
    by (auto simp: anonymize_task_def and_then_Return)
  obtain t1 g1 where r1: "r1 = (t1, g1)" by (cases r1)
  from rest r1 obtain v2 r2 where v2: "getitem (setitem ''title'' t1 task) ''context'' = Return v2"
    and s2: "anonymize_string v2 g1 = Return r2"
    by (auto simp: and_then_Return Let_def)
  from v1 have m1: "map_of task ''title'' = Some v1"
    by (auto simp: getitem_def split: option.splits)
  from v2 have m2: "map_of task ''context'' = Some v2"
    by (auto simp: getitem_def map_of_setitem split: option.splits)
  from m1 m2 anonymize_string_Return [OF s1] anonymize_string_Return [OF s2]
  show ?thesis by (auto simp: has_text_def)
qed

lemma anonymize_loop_Return:
  "anonymize_loop rs g = Return (rs', g') \<Longrightarrow> list_all2 anonymized_row rs rs'"
proof (induction rs arbitrary: g rs' g')
  case Nil
  then show ?case by simp
next
  case (Cons task rs)
  from Cons.prems obtain task' g1 rs1 where
    t: "anonymize_task task g = Return (task', g1)" and
    l: "anonymize_loop rs g1 = Return (rs1, g')" and r: "rs' = task' # rs1"
    by (auto simp: and_then_Return split: prod.splits)
  from anonymize_task_Return [OF t] anonymize_task_ok [of task g] t
  have "anonymized_row task task'" by auto
  with Cons.IH [OF l] r show ?case by simp
qed

text \<open>
  C9, as the claim states it, fails: with anonymization enabled the dispatcher returns, for
  the unknown view \<^verbatim>\<open>nonexistent\<close>, the record with the title \<^verbatim>\<open>not implemented\<close> as written and
  the generator as it was, so no scramble was applied to it; a scramble of that title from
  this generator gives another string and moves the generator on.
\<close>

theorem anonymizer_counterexample:
  "truthy (anonymize (self0\<lparr>anonymize := Bool True\<rparr>)) \<and>
   api (self0\<lparr>anonymize := Bool True\<rparr>) (Available db1) ''nonexistent'' g0 =
     Return (\<lparr> response = Some [[(''title'', Text ''not implemented'')]],
               content_type = Some ''application/json'', rstatus = 404 \<rparr>, g0) \<and>
   fst (shuffle ''not implemented'' g0) \<noteq> ''not implemented'' \<and>
   snd (shuffle ''not implemented'' g0) 0 \<noteq> g0 0"
proof -
  have "truthy (anonymize (self0\<lparr>anonymize := Bool True\<rparr>))" by code_simp
  moreover have "api (self0\<lparr>anonymize := Bool True\<rparr>) (Available db1) ''nonexistent'' g0 =
     Return (\<lparr> response = Some [[(''title'', Text ''not implemented'')]],
               content_type = Some ''application/json'', rstatus = 404 \<rparr>, g0)"
    by (simp add: api_def functions'_def get_not_implemented_def)
  moreover have "fst (shuffle ''not implemented'' g0) \<noteq> ''not implemented''" by code_simp
  moreover have "snd (shuffle ''not implemented'' g0) 0 \<noteq> g0 0" by code_simp
  ultimately show ?thesis by blast
qed

text \<open>
  C9 (amended): for every string the anonymizer returns a string with the same multiset of
  characters, hence the same length and the same set of characters, and \<^verbatim>\<open>None\<close> for \<^verbatim>\<open>None\<close>.
  When anonymization is enabled it is the last step of \<^verbatim>\<open>execute_query\<close>: on the rows of a
  query that carry \<^verbatim>\<open>title\<close> and \<^verbatim>\<open>context\<close> (strings or \<^verbatim>\<open>None\<close>) the method returns those
  rows with \<^verbatim>\<open>title\<close> and \<^verbatim>\<open>context\<close> scrambled and every other column unchanged; the rows of
  every query of \<^verbatim>\<open>get_rows\<close> whose filter id and pasted texts are plain are such rows; and
  whatever rows \<^verbatim>\<open>execute_query\<close> returns are the rows of the query with \<^verbatim>\<open>title\<close> and
  \<^verbatim>\<open>context\<close> scrambled. The record that the dispatcher returns for an unknown view does not
  pass through \<^verbatim>\<open>execute_query\<close>: it leaves with its title as written and the generator
  untouched.
\<close>

theorem anonymizer_keeps_characters:
  "(\<exists>string' g'. anonymize_string (Text string) g = Return (Text string', g') \<and>
       mset string' = mset string \<and> length string' = length string \<and> set string' = set string) \<and>
   anonymize_string Null g = Return (Null, g) \<and>
   (truthy (anonymize self) \<and> sql d = Inr rows \<and>
    (\<forall>task \<in> set rows. has_text task ''title'' \<and> has_text task ''context'') \<longrightarrow>
      (\<exists>rows' g'. execute_query self (Available d) sql g = Return (rows', g') \<and>
          list_all2 anonymized_row rows rows')) \<and>
   (truthy (anonymize self) \<and> permutes order_by \<and>
    filter_plain (filter' self) \<and> list_all plain pasted \<longrightarrow>
      (\<exists>rs rows' g'. get_rows_query self cond order_by d = Inr rs \<and>
          get_rows self (Available d) label pasted cond order_by g = Return (rows', g') \<and>
          list_all2 anonymized_row rs rows')) \<and>
   (truthy (anonymize self) \<and> sql d = Inr rows \<and>
    execute_query self (Available d) sql g = Return (out, g'') \<longrightarrow>
      list_all2 anonymized_row rows out) \<and>
   (truthy (anonymize self) \<and> command \<notin> set (map fst functions') \<longrightarrow>
      api self st command g =
        Return (\<lparr> response = Some [[(''title'', Text ''not implemented'')]],
                  content_type = Some ''application/json'', rstatus = 404 \<rparr>, g))"
proof -
  have m: "mset (fst (shuffle string g)) = mset string" by (rule mset_shuffle)
  have "anonymize_string (Text string) g = Return (Text (fst (shuffle string g)), snd (shuffle string g))"
    by (simp add: case_prod_beta)
  with m mset_eq_length [OF m] mset_eq_setD [OF m]
  have a: "\<exists>string' g'. anonymize_string (Text string) g = Return (Text string', g') \<and>
       mset string' = mset string \<and> length string' = length string \<and> set string' = set string"
    by blast
  have b: "truthy (anonymize self) \<and> sql d = Inr rows \<and>
    (\<forall>task \<in> set rows. has_text task ''title'' \<and> has_text task ''context'') \<longrightarrow>
      (\<exists>rows' g'. execute_query self (Available d) sql g = Return (rows', g') \<and>
          list_all2 anonymized_row rows rows')"
    using anonymize_loop_ok [of rows g] by (simp add: execute_query_def anonymize_tasks_def)
  have c: "truthy (anonymize self) \<and> permutes order_by \<and>
    filter_plain (filter' self) \<and> list_all plain pasted \<longrightarrow>
      (\<exists>rs rows' g'. get_rows_query self cond order_by d = Inr rs \<and>
          get_rows self (Available d) label pasted cond order_by g = Return (rows', g') \<and>
          list_all2 anonymized_row rs rows')"
  proof
    assume h: "truthy (anonymize self) \<and> permutes order_by \<and>
      filter_plain (filter' self) \<and> list_all plain pasted"
    obtain rs where q: "get_rows_query self cond order_by d = Inr rs"
      by (simp add: get_rows_query_def)
    then have "\<forall>task \<in> set rs. has_text task ''title'' \<and> has_text task ''context''"
      by (auto simp: get_rows_query_def has_text_select_row)
    from anonymize_loop_ok [OF this, of g] obtain rows' g'
      where "anonymize_loop rs g = Return (rows', g')" "list_all2 anonymized_row rs rows'" by blast
    with h q show "\<exists>rs rows' g'. get_rows_query self cond order_by d = Inr rs \<and>
          get_rows self (Available d) label pasted cond order_by g = Return (rows', g') \<and>
          list_all2 anonymized_row rs rows'"
      by (simp add: get_rows_plain execute_query_def anonymize_tasks_def)
  qed
  have e: "truthy (anonymize self) \<and> sql d = Inr rows \<and>
    execute_query self (Available d) sql g = Return (out, g'') \<longrightarrow>
      list_all2 anonymized_row rows out"
    using anonymize_loop_Return [of rows g out g'']
    by (auto simp: execute_query_def anonymize_tasks_def)
  have f: "truthy (anonymize self) \<and> command \<notin> set (map fst functions') \<longrightarrow>
      api self st command g =
        Return (\<lparr> response = Some [[(''title'', Text ''not implemented'')]],
                  content_type = Some ''application/json'', rstatus = 404 \<rparr>, g)"
  proof
    assume "truthy (anonymize self) \<and> command \<notin> set (map fst functions')"
    then have "map_of functions' command = None" by (simp add: map_of_eq_None_iff)
    then show "api self st command g =
        Return (\<lparr> response = Some [[(''title'', Text ''not implemented'')]],
                  content_type = Some ''application/json'', rstatus = 404 \<rparr>, g)"
      by (simp add: api_def get_not_implemented_def)
  qed
  from a b c e f show ?thesis by simp
qed

theorem anonymizer_keeps_characters_witness:
  "(\<exists>string' g'. anonymize_string (Text ''abcdef'') g0 = Return (Text string', g') \<and>
       mset string' = mset ''abcdef'' \<and> length string' = length ''abcdef'' \<and>
       set string' = set ''abcdef'') \<and>
   (\<exists>rows' g'. execute_query (class_attributes ''u'' \<lparr>anonymize := Str ''yes''\<rparr>) (Available db0)
          (\<lambda>d. Inr [[(''uuid'', Text ''T1''), (''title'', Text ''abcdef''), (''context'', Null)]])
          g0 = Return (rows', g') \<and>
      list_all2 anonymized_row
        [[(''uuid'', Text ''T1''), (''title'', Text ''abcdef''), (''context'', Null)]] rows') \<and>
   returned (execute_query (class_attributes ''u'' \<lparr>anonymize := Str ''yes''\<rparr>) (Available db0) (\<lambda>d. Inr [[(''uuid'', Text ''T1''), (''title'', Text ''abcdef''), (''context'', Null)]]) g0) =
     Some [[(''uuid'', Text ''T1''), (''title'', Text ''cfebad''), (''context'', Null)]] \<and>
   list_all2 anonymized_row [[(''uuid'', Text ''T1''), (''title'', Text ''abcdef''), (''context'', Null)]]
     [[(''uuid'', Text ''T1''), (''title'', Text ''cfebad''), (''context'', Null)]] \<and>
   (\<exists>rs rows' g'. get_rows_query (self0\<lparr>anonymize := Bool True\<rparr>) (\<lambda>d j. True) (\<lambda>js. js) db1 = Inr rs \<and>
      get_rows (self0\<lparr>anonymize := Bool True\<rparr>) (Available db1) ''get_all'' [] (\<lambda>d j. True) (\<lambda>js. js) g0 =
        Return (rows', g') \<and>
      list_all2 anonymized_row rs rows') \<and>
   api (self0\<lparr>anonymize := Bool True\<rparr>) (Unavailable ''unable to open database file'') ''anytime'' g0 =
     Return (\<lparr> response = Some [[(''title'', Text ''not implemented'')]],
               content_type = Some ''application/json'', rstatus = 404 \<rparr>, g0)"
proof -
  have tc: "truthy (anonymize (class_attributes ''u'' \<lparr>anonymize := Str ''yes''\<rparr>))" by simp
  have q: "(\<lambda>d. Inr [[(''uuid'', Text ''T1''), (''title'', Text ''abcdef''), (''context'', Null)]]) db0 =
      (Inr [[(''uuid'', Text ''T1''), (''title'', Text ''abcdef''), (''context'', Null)]] ::
         string + row list)" by simp
  have h: "truthy (anonymize (class_attributes ''u'' \<lparr>anonymize := Str ''yes''\<rparr>)) \<and>
    (\<lambda>d. Inr [[(''uuid'', Text ''T1''), (''title'', Text ''abcdef''), (''context'', Null)]]) db0 =
      (Inr [[(''uuid'', Text ''T1''), (''title'', Text ''abcdef''), (''context'', Null)]] ::
         string + row list) \<and>
    (\<forall>task \<in> set [[(''uuid'', Text ''T1''), (''title'', Text ''abcdef''), (''context'', Null)]].
        has_text task ''title'' \<and> has_text task ''context'')"
    by (simp add: has_text_def)
  have t: "truthy (anonymize (self0\<lparr>anonymize := Bool True\<rparr>))" by code_simp
  have fp: "filter_plain (filter' (self0\<lparr>anonymize := Bool True\<rparr>))" by code_simp
  have k: "truthy (anonymize (self0\<lparr>anonymize := Bool True\<rparr>)) \<and> permutes (\<lambda>js :: joined list. js) \<and>
    filter_plain (filter' (self0\<lparr>anonymize := Bool True\<rparr>)) \<and> list_all plain []"
    using t fp by (simp add: permutes_id)
  have n: "truthy (anonymize (self0\<lparr>anonymize := Bool True\<rparr>)) \<and> ''anytime'' \<notin> set (map fst functions')"
    using t by (simp add: functions'_def)
  from h anonymizer_keeps_characters [of "''abcdef''" g0
      "class_attributes ''u'' \<lparr>anonymize := Str ''yes''\<rparr>"
      "\<lambda>d. Inr [[(''uuid'', Text ''T1''), (''title'', Text ''abcdef''), (''context'', Null)]]" db0
      "[[(''uuid'', Text ''T1''), (''title'', Text ''abcdef''), (''context'', Null)]]"]
  have first: "(\<exists>string' g'. anonymize_string (Text ''abcdef'') g0 = Return (Text string', g') \<and>
       mset string' = mset ''abcdef'' \<and> length string' = length ''abcdef'' \<and>
       set string' = set ''abcdef'') \<and>
   (\<exists>rows' g'. execute_query (class_attributes ''u'' \<lparr>anonymize := Str ''yes''\<rparr>) (Available db0)
          (\<lambda>d. Inr [[(''uuid'', Text ''T1''), (''title'', Text ''abcdef''), (''context'', Null)]])
          g0 = Return (rows', g') \<and>
      list_all2 anonymized_row
        [[(''uuid'', Text ''T1''), (''title'', Text ''abcdef''), (''context'', Null)]] rows')"
    by blast
  then obtain rows' g' where
    ret: "execute_query (class_attributes ''u'' \<lparr>anonymize := Str ''yes''\<rparr>) (Available db0) (\<lambda>d. Inr [[(''uuid'', Text ''T1''), (''title'', Text ''abcdef''), (''context'', Null)]]) g0 = Return (rows', g')"
    by blast
  have ev: "returned (execute_query (class_attributes ''u'' \<lparr>anonymize := Str ''yes''\<rparr>) (Available db0) (\<lambda>d. Inr [[(''uuid'', Text ''T1''), (''title'', Text ''abcdef''), (''context'', Null)]]) g0) =
     Some [[(''uuid'', Text ''T1''), (''title'', Text ''cfebad''), (''context'', Null)]]"
    by code_simp
  with ret have out: "rows' = [[(''uuid'', Text ''T1''), (''title'', Text ''cfebad''), (''context'', Null)]]" by simp
  from tc q ret anonymizer_keeps_characters [where self = "class_attributes ''u'' \<lparr>anonymize := Str ''yes''\<rparr>"
      and sql = "\<lambda>d. Inr [[(''uuid'', Text ''T1''), (''title'', Text ''abcdef''), (''context'', Null)]]" and d = db0 and rows = "[[(''uuid'', Text ''T1''), (''title'', Text ''abcdef''), (''context'', Null)]]" and g = g0
      and out = rows' and g'' = g']
  have "list_all2 anonymized_row [[(''uuid'', Text ''T1''), (''title'', Text ''abcdef''), (''context'', Null)]] rows'" by blast
  with out have last: "list_all2 anonymized_row [[(''uuid'', Text ''T1''), (''title'', Text ''abcdef''), (''context'', Null)]]
     [[(''uuid'', Text ''T1''), (''title'', Text ''cfebad''), (''context'', Null)]]" by simp
  from k n anonymizer_keeps_characters [where self = "self0\<lparr>anonymize := Bool True\<rparr>"
      and order_by = "\<lambda>js. js" and cond = "\<lambda>d j. True" and d = db1 and g = g0
      and label = "''get_all''" and pasted = "[]" and command = "''anytime''"
      and st = "Unavailable ''unable to open database file''"]
  have second: "(\<exists>rs rows' g'. get_rows_query (self0\<lparr>anonymize := Bool True\<rparr>) (\<lambda>d j. True) (\<lambda>js. js) db1 = Inr rs \<and>
      get_rows (self0\<lparr>anonymize := Bool True\<rparr>) (Available db1) ''get_all'' [] (\<lambda>d j. True) (\<lambda>js. js) g0 =
        Return (rows', g') \<and>
      list_all2 anonymized_row rs rows') \<and>
   api (self0\<lparr>anonymize := Bool True\<rparr>) (Unavailable ''unable to open database file'') ''anytime'' g0 =
     Return (\<lparr> response = Some [[(''title'', Text ''not implemented'')]],
               content_type = Some ''application/json'', rstatus = 404 \<rparr>, g0)"
    by blast
  from first ev last second show ?thesis by blast
qed

text \<open>
  The same call, evaluated: the title \<^verbatim>\<open>abcdef\<close> leaves the engine as \<^verbatim>\<open>cfebad\<close>; a second
  scramble of the result, from the same generator, gives another string; and rows without a
  \<^verbatim>\<open>context\<close> column (those of \<^verbatim>\<open>get_areas\<close>) end the call with \<^verbatim>\<open>KeyError\<close>.
\<close>

lemma anonymizer_example:
  "returned (execute_query (class_attributes ''u'' \<lparr>anonymize := Str ''yes''\<rparr>) (Available db0)
      (\<lambda>d. Inr [[(''uuid'', Text ''T1''), (''title'', Text ''abcdef''), (''context'', Null)]]) g0) =
   Some [[(''uuid'', Text ''T1''), (''title'', Text ''cfebad''), (''context'', Null)]]"
  by code_simp

lemma anonymizer_not_idempotent:
  "fst (shuffle (fst (shuffle ''abcdef'' g0)) g0) \<noteq> fst (shuffle ''abcdef'' g0)"
  by code_simp

lemma anonymizer_missing_column:
  "raised (execute_query (class_attributes ''u'' \<lparr>anonymize := Str ''yes''\<rparr>) (Available db0)
      (\<lambda>d. Inr [[(''uuid'', Text ''A1''), (''title'', Text ''abcdef'')]]) g0) =
   Some (KeyError ''context'')"
  by code_simp

end
